theory Spec2Isabelle
  imports Main "HOL-Library.AList"
begin

section \<open>Data model (internal/models/models.go)\<close>

text \<open>
  Go strings are \<^typ>\<open>string\<close>; Go's \<open>int\<close> and \<open>int64\<close> are \<^typ>\<open>int\<close> (the one product
  that can leave the 64-bit range, the page offset, is wrapped explicitly below).
  \<open>time.Time\<close> is a number of seconds, \<open>0\<close> being the zero time. A nullable column or
  a nil-able pointer or map is an \<open>option\<close>. \<open>map[string]interface{}\<close> is an association
  list of JSON values.
\<close>

datatype json = JNull | JBool bool | JStr string | JObj "(string \<times> json) list"

type_synonym JSONMap = "(string \<times> json) list"

record Workspace =
  ws_ID :: string
  ws_CreatedAt :: nat
  ws_UpdatedAt :: nat
  ws_DeletedAt :: "nat option"
  ws_TenantID :: string
  ws_Name :: string
  ws_Description :: string
  ws_Settings :: "JSONMap option"
  ws_CreatedBy :: string

record Project =
  pj_ID :: string
  pj_CreatedAt :: nat
  pj_UpdatedAt :: nat
  pj_DeletedAt :: "nat option"
  pj_WorkspaceID :: string
  pj_Name :: string
  pj_Description :: string
  pj_Status :: string
  pj_Settings :: "JSONMap option"
  pj_CreatedBy :: string
  pj_Workspace :: "Workspace option"

record AirtableBase =
  ab_ID :: string
  ab_CreatedAt :: nat
  ab_UpdatedAt :: nat
  ab_DeletedAt :: "nat option"
  ab_ProjectID :: string
  ab_BaseID :: string
  ab_Name :: string
  ab_Description :: string
  ab_SyncEnabled :: bool
  ab_LastSyncAt :: "nat option"
  ab_Project :: "Project option"

type_synonym WorkspaceMemberRole = string

definition WorkspaceRoleOwner :: WorkspaceMemberRole where
  "WorkspaceRoleOwner = ''owner''"

definition WorkspaceRoleAdmin :: WorkspaceMemberRole where
  "WorkspaceRoleAdmin = ''admin''"

definition WorkspaceRoleMember :: WorkspaceMemberRole where
  "WorkspaceRoleMember = ''member''"

definition WorkspaceRoleViewer :: WorkspaceMemberRole where
  "WorkspaceRoleViewer = ''viewer''"

record WorkspaceMember =
  wm_WorkspaceID :: string
  wm_UserID :: string
  wm_Role :: WorkspaceMemberRole
  wm_JoinedAt :: nat

record WorkspaceAuditLog =
  al_ID :: string
  al_WorkspaceID :: string
  al_UserID :: string
  al_Action :: string
  al_ResourceType :: string
  al_ResourceID :: string
  al_Changes :: "JSONMap option"
  al_CreatedAt :: nat

subsection \<open>Requests, responses, filters\<close>

record CreateWorkspaceRequest =
  cwr_Name :: string
  cwr_Description :: string
  cwr_Settings :: "JSONMap option"


record CreateProjectRequest =
  cpr_Name :: string
  cpr_Description :: string
  cpr_Settings :: "JSONMap option"






record ProjectListResponse =
  plr_Projects :: "Project list"
  plr_Total :: int
  plr_Page :: int
  plr_PageSize :: int
  plr_TotalPages :: int

record WorkspaceMemberListResponse =
  mlr_Members :: "WorkspaceMember list"
  mlr_Total :: int
  mlr_Page :: int
  mlr_PageSize :: int
  mlr_TotalPages :: int

record AuditLogListResponse =
  alr_Logs :: "WorkspaceAuditLog list"
  alr_Total :: int
  alr_Page :: int
  alr_PageSize :: int
  alr_TotalPages :: int

record WorkspaceFilter =
  wf_TenantID :: string
  wf_Search :: string
  wf_CreatedBy :: string
  wf_Page :: int
  wf_PageSize :: int
  wf_SortBy :: string
  wf_SortOrder :: string
  wf_IncludeDeleted :: bool

record ProjectFilter =
  pf_WorkspaceID :: string
  pf_Status :: string
  pf_Search :: string
  pf_CreatedBy :: string
  pf_Page :: int
  pf_PageSize :: int
  pf_SortBy :: string
  pf_SortOrder :: string
  pf_IncludeDeleted :: bool

record AirtableBaseFilter =
  bf_ProjectID :: string
  bf_SyncEnabled :: "bool option"
  bf_Search :: string
  bf_Page :: int
  bf_PageSize :: int
  bf_SortBy :: string
  bf_SortOrder :: string

record AuditLogFilter =
  af_WorkspaceID :: string
  af_UserID :: string
  af_Action :: string
  af_ResourceType :: string
  af_ResourceID :: string
  af_Page :: int
  af_PageSize :: int
  af_SortBy :: string
  af_SortOrder :: string

section \<open>Errors\<close>

text \<open>
  The sentinel errors of package \<open>repositories\<close> (part_003) and of package \<open>services\<close>
  (services.go) are different values even where the messages agree, so each has its own
  constructor. \<open>ErrStore\<close> stands for any error of the database driver that is not one of
  the sentinels, \<open>ErrCache\<close> for any error of the cache client; the \<open>Errorf\<close> constructors
  are the \<open>fmt.Errorf\<close> values, carrying the value that is formatted into the message.
\<close>

datatype error =
    repositories_ErrWorkspaceNotFound
  | repositories_ErrProjectNotFound
  | repositories_ErrAirtableBaseNotFound
  | ErrMemberNotFound
  | ErrDuplicateWorkspace
  | ErrDuplicateProject
  | ErrDuplicateAirtableBase
  | ErrDuplicateMember
  | ErrCannotDeleteOwner
  | ErrLastOwner
  | services_ErrWorkspaceNotFound
  | services_ErrProjectNotFound
  | services_ErrAirtableBaseNotFound
  | ErrUnauthorized
  | ErrQuotaExceeded
  | ErrInvalidInput
  | ErrStore
  | ErrCache
  | Errorf_invalid_status string
  | Errorf_active_projects int
  | Errorf_connected_bases int

section \<open>The stores\<close>

text \<open>
  What the code takes from its platform without defining it is a parameter of the
  model: Go's Unicode case mapping, the SQL engine's evaluation of
  \<open>LOWER(column) LIKE pattern\<close> and the row order an \<open>ORDER BY\<close> clause produces, and the
  identifiers \<open>gen_random_uuid()\<close> hands out. The theorems hold for every choice of them.
\<close>

record platform =
  strings_ToLower :: "string \<Rightarrow> string"
  strings_ToUpper :: "string \<Rightarrow> string"
  sql_lower_like :: "string \<Rightarrow> string \<Rightarrow> bool"
  order_workspaces :: "string \<Rightarrow> Workspace list \<Rightarrow> Workspace list"
  order_projects :: "string \<Rightarrow> Project list \<Rightarrow> Project list"
  order_bases :: "string \<Rightarrow> AirtableBase list \<Rightarrow> AirtableBase list"
  order_members :: "string \<Rightarrow> WorkspaceMember list \<Rightarrow> WorkspaceMember list"
  order_logs :: "string \<Rightarrow> WorkspaceAuditLog list \<Rightarrow> WorkspaceAuditLog list"
  gen_random_uuid :: "nat \<Rightarrow> string"

text \<open>
  The durable store is the five tables; the cache store holds, per key, a value and the
  time it expires. The three fault schedules are the environment's choice of which
  statement fails: each statement sent to the database (to the audit-log table, to the
  cache) takes the head of its schedule, \<open>True\<close> meaning that the statement returns an
  error and has no effect. An empty schedule means that nothing fails any more.
\<close>

record store =
  workspaces :: "Workspace list"
  projects :: "Project list"
  airtable_bases :: "AirtableBase list"
  workspace_members :: "WorkspaceMember list"
  workspace_audit_logs :: "WorkspaceAuditLog list"
  cache_workspace :: "(string \<times> Workspace \<times> nat) list"
  cache_project :: "(string \<times> Project \<times> nat) list"
  cache_user_workspaces :: "(string \<times> string list \<times> nat) list"
  clock :: nat
  uuid_next :: nat
  db_faults :: "bool list"
  audit_faults :: "bool list"
  redis_faults :: "bool list"
  engine :: platform

definition db_exec :: "store \<Rightarrow> bool \<times> store" where
  "db_exec s = (case db_faults s of [] \<Rightarrow> (False, s) | f # fs \<Rightarrow> (f, s\<lparr>db_faults := fs\<rparr>))"

definition audit_exec :: "store \<Rightarrow> bool \<times> store" where
  "audit_exec s =
     (case audit_faults s of [] \<Rightarrow> (False, s) | f # fs \<Rightarrow> (f, s\<lparr>audit_faults := fs\<rparr>))"

definition redis_exec :: "store \<Rightarrow> bool \<times> store" where
  "redis_exec s =
     (case redis_faults s of [] \<Rightarrow> (False, s) | f # fs \<Rightarrow> (f, s\<lparr>redis_faults := fs\<rparr>))"

definition new_uuid :: "store \<Rightarrow> string" where
  "new_uuid s = gen_random_uuid (engine s) (uuid_next s)"

text \<open>
  \<open>Offset(offset).Limit(pageSize)\<close>: the offset is a Go \<open>int\<close> product, so it wraps at 64
  bits; a clause with a value that is not positive is left out of the statement.
\<close>

definition int64_wrap :: "int \<Rightarrow> int" where
  "int64_wrap x = (x + 2 ^ 63) mod 2 ^ 64 - 2 ^ 63"

definition paginate :: "int \<Rightarrow> int \<Rightarrow> 'a list \<Rightarrow> 'a list" where
  "paginate page pageSize rows =
     (let offset = int64_wrap ((page - 1) * pageSize)
      in take (nat pageSize) (drop (nat offset) rows))"

section \<open>Role hierarchy (part_007, hasRequiredRole)\<close>

definition roleHierarchy :: "(WorkspaceMemberRole \<times> int) list" where
  "roleHierarchy =
     [(WorkspaceRoleViewer, 1), (WorkspaceRoleMember, 2),
      (WorkspaceRoleAdmin, 3), (WorkspaceRoleOwner, 4)]"

definition hasRequiredRole :: "WorkspaceMemberRole \<Rightarrow> WorkspaceMemberRole \<Rightarrow> bool" where
  "hasRequiredRole userRole requiredRole =
     (case (map_of roleHierarchy userRole, map_of roleHierarchy requiredRole) of
        (Some userLevel, Some requiredLevel) \<Rightarrow> userLevel \<ge> requiredLevel
      | _ \<Rightarrow> False)"

section \<open>Membership store (workspace_member_repository.go)\<close>

text \<open>
  \<open>workspace_members\<close> has the composite primary key \<open>(workspace_id, user_id)\<close> and no
  soft delete. \<open>Create\<close> fills \<open>joined_at\<close> with the column default when it is zero.
\<close>

definition member_key :: "WorkspaceMember \<Rightarrow> string \<times> string" where
  "member_key m = (wm_WorkspaceID m, wm_UserID m)"

definition Member_Add :: "store \<Rightarrow> WorkspaceMember \<Rightarrow> error option \<times> store" where
  "Member_Add s member =
     (case db_exec s of
        (True, s1) \<Rightarrow> (Some ErrStore, s1)
      | (False, s1) \<Rightarrow>
          let count = int (length (filter (\<lambda>m. wm_WorkspaceID m = wm_WorkspaceID member \<and>
                                               wm_UserID m = wm_UserID member)
                                          (workspace_members s1)))
          in if count > 0 then (Some ErrDuplicateMember, s1)
             else (case db_exec s1 of
                     (True, s2) \<Rightarrow> (Some ErrStore, s2)
                   | (False, s2) \<Rightarrow>
                       (None, s2\<lparr>workspace_members := workspace_members s2 @
                          [member\<lparr>wm_JoinedAt :=
                             (if wm_JoinedAt member = 0 then clock s2 else wm_JoinedAt member)\<rparr>]\<rparr>)))"

definition Member_GetByWorkspaceAndUser ::
  "store \<Rightarrow> string \<Rightarrow> string \<Rightarrow> (error + WorkspaceMember) \<times> store" where
  "Member_GetByWorkspaceAndUser s workspaceID userID =
     (case db_exec s of
        (True, s1) \<Rightarrow> (Inl ErrStore, s1)
      | (False, s1) \<Rightarrow>
          (case find (\<lambda>m. wm_WorkspaceID m = workspaceID \<and> wm_UserID m = userID)
                     (workspace_members s1) of
             None \<Rightarrow> (Inl ErrMemberNotFound, s1)
           | Some member \<Rightarrow> (Inr member, s1)))"

definition Member_CountOwners :: "store \<Rightarrow> string \<Rightarrow> (error + int) \<times> store" where
  "Member_CountOwners s workspaceID =
     (case db_exec s of
        (True, s1) \<Rightarrow> (Inl ErrStore, s1)
      | (False, s1) \<Rightarrow>
          (Inr (int (length (filter (\<lambda>m. wm_WorkspaceID m = workspaceID \<and>
                                          wm_Role m = WorkspaceRoleOwner)
                                     (workspace_members s1)))), s1))"

definition Member_IsLastOwner :: "store \<Rightarrow> string \<Rightarrow> string \<Rightarrow> (error + bool) \<times> store" where
  "Member_IsLastOwner s workspaceID userID =
     (case Member_GetByWorkspaceAndUser s workspaceID userID of
        (Inl err, s1) \<Rightarrow> (Inl err, s1)
      | (Inr member, s1) \<Rightarrow>
          if wm_Role member \<noteq> WorkspaceRoleOwner then (Inr False, s1)
          else (case Member_CountOwners s1 workspaceID of
                  (Inl err, s2) \<Rightarrow> (Inl err, s2)
                | (Inr ownerCount, s2) \<Rightarrow> (Inr (ownerCount \<le> 1), s2)))"

definition Member_update_rows ::
  "store \<Rightarrow> string \<Rightarrow> string \<Rightarrow> WorkspaceMemberRole \<Rightarrow> error option \<times> store" where
  "Member_update_rows s workspaceID userID role =
     (case db_exec s of
        (True, s1) \<Rightarrow> (Some ErrStore, s1)
      | (False, s1) \<Rightarrow>
          let hit = (\<lambda>m. wm_WorkspaceID m = workspaceID \<and> wm_UserID m = userID);
              rowsAffected = int (length (filter hit (workspace_members s1)))
          in if rowsAffected = 0 then (Some ErrMemberNotFound, s1)
             else (None, s1\<lparr>workspace_members :=
                     map (\<lambda>m. if hit m then m\<lparr>wm_Role := role\<rparr> else m) (workspace_members s1)\<rparr>))"

definition Member_UpdateRole ::
  "store \<Rightarrow> string \<Rightarrow> string \<Rightarrow> WorkspaceMemberRole \<Rightarrow> error option \<times> store" where
  "Member_UpdateRole s workspaceID userID role =
     (if role \<noteq> WorkspaceRoleOwner then
        (case Member_IsLastOwner s workspaceID userID of
           (Inl err, s1) \<Rightarrow> (Some err, s1)
         | (Inr isLastOwner, s1) \<Rightarrow>
             if isLastOwner then (Some ErrLastOwner, s1)
             else Member_update_rows s1 workspaceID userID role)
      else Member_update_rows s workspaceID userID role)"

definition Member_delete_rows :: "store \<Rightarrow> string \<Rightarrow> string \<Rightarrow> error option \<times> store" where
  "Member_delete_rows s workspaceID userID =
     (case db_exec s of
        (True, s1) \<Rightarrow> (Some ErrStore, s1)
      | (False, s1) \<Rightarrow>
          let hit = (\<lambda>m. wm_WorkspaceID m = workspaceID \<and> wm_UserID m = userID);
              rowsAffected = int (length (filter hit (workspace_members s1)))
          in if rowsAffected = 0 then (Some ErrMemberNotFound, s1)
             else (None, s1\<lparr>workspace_members :=
                     filter (\<lambda>m. \<not> hit m) (workspace_members s1)\<rparr>))"

definition Member_Remove :: "store \<Rightarrow> string \<Rightarrow> string \<Rightarrow> error option \<times> store" where
  "Member_Remove s workspaceID userID =
     (case Member_GetByWorkspaceAndUser s workspaceID userID of
        (Inl err, s1) \<Rightarrow> (Some err, s1)
      | (Inr member, s1) \<Rightarrow>
          if wm_Role member = WorkspaceRoleOwner then
            (case Member_IsLastOwner s1 workspaceID userID of
               (Inl err, s2) \<Rightarrow> (Some err, s2)
             | (Inr isLastOwner, s2) \<Rightarrow>
                 if isLastOwner then (Some ErrLastOwner, s2)
                 else Member_delete_rows s2 workspaceID userID)
          else Member_delete_rows s1 workspaceID userID)"

definition Member_List ::
  "store \<Rightarrow> string \<Rightarrow> int \<Rightarrow> int \<Rightarrow> (error + WorkspaceMember list \<times> int) \<times> store" where
  "Member_List s workspaceID page0 pageSize0 =
     (let rows = filter (\<lambda>m. wm_WorkspaceID m = workspaceID) (workspace_members s)
      in case db_exec s of
           (True, s1) \<Rightarrow> (Inl ErrStore, s1)
         | (False, s1) \<Rightarrow>
             let total' = int (length rows);
                 page = (if page0 < 1 then 1 else page0);
                 pageSize1 = (if pageSize0 < 1 then 20 else pageSize0);
                 pageSize = (if pageSize1 > 100 then 100 else pageSize1)
             in (case db_exec s1 of
                   (True, s2) \<Rightarrow> (Inl ErrStore, s2)
                 | (False, s2) \<Rightarrow>
                     (Inr (paginate page pageSize
                             (order_members (engine s) ''joined_at DESC'' rows), total'), s2)))"

section \<open>Workspace store (workspace_repository.go)\<close>

text \<open>
  \<open>Workspace\<close>, \<open>Project\<close> and \<open>AirtableBase\<close> embed \<open>BaseModel\<close>, whose \<open>DeletedAt\<close> makes
  \<open>Delete\<close> a soft delete (the row stays, \<open>deleted_at\<close> is set) and makes every query of
  the model skip rows with \<open>deleted_at\<close> set. \<open>Create\<close> fills an empty \<open>id\<close> from
  \<open>gen_random_uuid()\<close>, zero timestamps from the clock and a nil \<open>settings\<close> from the column
  default, and writes the values back into the struct it was given: the model returns
  that struct. \<open>Updates\<close> with a struct writes the fields of the struct that are not the
  zero value of their type, sets \<open>updated_at\<close>, and does nothing without a primary key.
  For a struct that carries a preloaded parent, \<open>Updates\<close> also sends the parent's row as
  an insert that does nothing on conflict; it changes no row and is left out.
\<close>

definition Workspace_Create :: "store \<Rightarrow> Workspace \<Rightarrow> (error + Workspace) \<times> store" where
  "Workspace_Create s workspace =
     (case db_exec s of
        (True, s1) \<Rightarrow> (Inl ErrStore, s1)
      | (False, s1) \<Rightarrow>
          let count = int (length (filter (\<lambda>w. ws_TenantID w = ws_TenantID workspace \<and>
                                               ws_Name w = ws_Name workspace \<and>
                                               ws_DeletedAt w = None)
                                          (workspaces s1)))
          in if count > 0 then (Inl ErrDuplicateWorkspace, s1)
             else (case db_exec s1 of
                     (True, s2) \<Rightarrow> (Inl ErrStore, s2)
                   | (False, s2) \<Rightarrow>
                       let row = workspace\<lparr>
                             ws_ID := (if ws_ID workspace = [] then new_uuid s2 else ws_ID workspace),
                             ws_CreatedAt := (if ws_CreatedAt workspace = 0 then clock s2
                                              else ws_CreatedAt workspace),
                             ws_UpdatedAt := (if ws_UpdatedAt workspace = 0 then clock s2
                                              else ws_UpdatedAt workspace),
                             ws_Settings := (case ws_Settings workspace of
                                               None \<Rightarrow> Some [] | Some m \<Rightarrow> Some m)\<rparr>
                       in (Inr row,
                           s2\<lparr>workspaces := workspaces s2 @ [row],
                              uuid_next := (if ws_ID workspace = [] then Suc (uuid_next s2)
                                            else uuid_next s2)\<rparr>)))"

definition Workspace_GetByID :: "store \<Rightarrow> string \<Rightarrow> (error + Workspace) \<times> store" where
  "Workspace_GetByID s id' =
     (case db_exec s of
        (True, s1) \<Rightarrow> (Inl ErrStore, s1)
      | (False, s1) \<Rightarrow>
          (case find (\<lambda>w. ws_ID w = id' \<and> ws_DeletedAt w = None) (workspaces s1) of
             None \<Rightarrow> (Inl repositories_ErrWorkspaceNotFound, s1)
           | Some workspace \<Rightarrow> (Inr workspace, s1)))"



definition Workspace_Delete :: "store \<Rightarrow> string \<Rightarrow> error option \<times> store" where
  "Workspace_Delete s id' =
     (case db_exec s of
        (True, s1) \<Rightarrow> (Some ErrStore, s1)
      | (False, s1) \<Rightarrow>
          let hit = (\<lambda>w. ws_ID w = id' \<and> ws_DeletedAt w = None);
              rowsAffected = int (length (filter hit (workspaces s1)))
          in if rowsAffected = 0 then (Some repositories_ErrWorkspaceNotFound, s1)
             else (None, s1\<lparr>workspaces :=
                     map (\<lambda>w. if hit w then w\<lparr>ws_DeletedAt := Some (clock s1)\<rparr> else w)
                         (workspaces s1)\<rparr>))"

definition Workspace_where :: "store \<Rightarrow> WorkspaceFilter \<Rightarrow> Workspace list" where
  "Workspace_where s filter' =
     (let q0 = filter (\<lambda>w. ws_DeletedAt w = None) (workspaces s);
          q1 = (if wf_TenantID filter' \<noteq> []
                then filter (\<lambda>w. ws_TenantID w = wf_TenantID filter') q0 else q0);
          q2 = (if wf_CreatedBy filter' \<noteq> []
                then filter (\<lambda>w. ws_CreatedBy w = wf_CreatedBy filter') q1 else q1);
          q3 = (if wf_Search filter' \<noteq> []
                then (let search = ''%'' @ strings_ToLower (engine s) (wf_Search filter') @ ''%''
                      in filter (\<lambda>w. sql_lower_like (engine s) (ws_Name w) search \<or>
                                      sql_lower_like (engine s) (ws_Description w) search) q2)
                else q2);
          q4 = (if \<not> wf_IncludeDeleted filter'
                then filter (\<lambda>w. ws_DeletedAt w = None) q3 else q3)
      in q4)"

definition Workspace_List ::
  "store \<Rightarrow> WorkspaceFilter \<Rightarrow> (error + Workspace list \<times> int) \<times> store" where
  "Workspace_List s filter' =
     (let rows = Workspace_where s filter'
      in case db_exec s of
           (True, s1) \<Rightarrow> (Inl ErrStore, s1)
         | (False, s1) \<Rightarrow>
             let total' = int (length rows);
                 sortBy = (if wf_SortBy filter' \<noteq> [] then wf_SortBy filter' else ''created_at'');
                 sortOrder = (if wf_SortOrder filter' \<noteq> [] \<and>
                                 strings_ToUpper (engine s) (wf_SortOrder filter') = ''ASC''
                              then ''ASC'' else ''DESC'');
                 page = (if wf_Page filter' < 1 then 1 else wf_Page filter');
                 pageSize1 = (if wf_PageSize filter' < 1 then 20 else wf_PageSize filter');
                 pageSize = (if pageSize1 > 100 then 100 else pageSize1)
             in (case db_exec s1 of
                   (True, s2) \<Rightarrow> (Inl ErrStore, s2)
                 | (False, s2) \<Rightarrow>
                     (Inr (paginate page pageSize
                             (order_workspaces (engine s) (sortBy @ '' '' @ sortOrder) rows),
                           total'), s2)))"

section \<open>Project store (audit_log_repository.go, second part)\<close>

text \<open>
  \<open>Preload("Workspace")\<close> is a second statement, sent when the first one found rows: it
  reads the workspaces (not the soft-deleted ones) the projects point to.
\<close>

definition preload_Workspace :: "store \<Rightarrow> Project \<Rightarrow> Project" where
  "preload_Workspace s p =
     p\<lparr>pj_Workspace :=
          find (\<lambda>w. ws_ID w = pj_WorkspaceID p \<and> ws_DeletedAt w = None) (workspaces s)\<rparr>"

definition Project_Create :: "store \<Rightarrow> Project \<Rightarrow> (error + Project) \<times> store" where
  "Project_Create s project =
     (case db_exec s of
        (True, s1) \<Rightarrow> (Inl ErrStore, s1)
      | (False, s1) \<Rightarrow>
          let count = int (length (filter (\<lambda>p. pj_WorkspaceID p = pj_WorkspaceID project \<and>
                                               pj_Name p = pj_Name project \<and>
                                               pj_DeletedAt p = None)
                                          (projects s1)))
          in if count > 0 then (Inl ErrDuplicateProject, s1)
             else (case db_exec s1 of
                     (True, s2) \<Rightarrow> (Inl ErrStore, s2)
                   | (False, s2) \<Rightarrow>
                       let row = project\<lparr>
                             pj_ID := (if pj_ID project = [] then new_uuid s2 else pj_ID project),
                             pj_CreatedAt := (if pj_CreatedAt project = 0 then clock s2
                                              else pj_CreatedAt project),
                             pj_UpdatedAt := (if pj_UpdatedAt project = 0 then clock s2
                                              else pj_UpdatedAt project),
                             pj_Status := (if pj_Status project = [] then ''active''
                                           else pj_Status project),
                             pj_Settings := (case pj_Settings project of
                                               None \<Rightarrow> Some [] | Some m \<Rightarrow> Some m)\<rparr>
                       in (Inr row,
                           s2\<lparr>projects := projects s2 @ [row\<lparr>pj_Workspace := None\<rparr>],
                              uuid_next := (if pj_ID project = [] then Suc (uuid_next s2)
                                            else uuid_next s2)\<rparr>)))"

definition Project_GetByID :: "store \<Rightarrow> string \<Rightarrow> (error + Project) \<times> store" where
  "Project_GetByID s id' =
     (case db_exec s of
        (True, s1) \<Rightarrow> (Inl ErrStore, s1)
      | (False, s1) \<Rightarrow>
          (case find (\<lambda>p. pj_ID p = id' \<and> pj_DeletedAt p = None) (projects s1) of
             None \<Rightarrow> (Inl repositories_ErrProjectNotFound, s1)
           | Some project \<Rightarrow>
               (case db_exec s1 of
                  (True, s2) \<Rightarrow> (Inl ErrStore, s2)
                | (False, s2) \<Rightarrow> (Inr (preload_Workspace s2 project), s2))))"



definition Project_Delete :: "store \<Rightarrow> string \<Rightarrow> error option \<times> store" where
  "Project_Delete s id' =
     (case db_exec s of
        (True, s1) \<Rightarrow> (Some ErrStore, s1)
      | (False, s1) \<Rightarrow>
          let hit = (\<lambda>p. pj_ID p = id' \<and> pj_DeletedAt p = None);
              rowsAffected = int (length (filter hit (projects s1)))
          in if rowsAffected = 0 then (Some repositories_ErrProjectNotFound, s1)
             else (None, s1\<lparr>projects :=
                     map (\<lambda>p. if hit p then p\<lparr>pj_DeletedAt := Some (clock s1)\<rparr> else p)
                         (projects s1)\<rparr>))"

definition Project_where :: "store \<Rightarrow> ProjectFilter \<Rightarrow> Project list" where
  "Project_where s filter' =
     (let q0 = filter (\<lambda>p. pj_DeletedAt p = None) (projects s);
          q1 = (if pf_WorkspaceID filter' \<noteq> []
                then filter (\<lambda>p. pj_WorkspaceID p = pf_WorkspaceID filter') q0 else q0);
          q2 = (if pf_Status filter' \<noteq> []
                then filter (\<lambda>p. pj_Status p = pf_Status filter') q1 else q1);
          q3 = (if pf_CreatedBy filter' \<noteq> []
                then filter (\<lambda>p. pj_CreatedBy p = pf_CreatedBy filter') q2 else q2);
          q4 = (if pf_Search filter' \<noteq> []
                then (let search = ''%'' @ strings_ToLower (engine s) (pf_Search filter') @ ''%''
                      in filter (\<lambda>p. sql_lower_like (engine s) (pj_Name p) search \<or>
                                      sql_lower_like (engine s) (pj_Description p) search) q3)
                else q3);
          q5 = (if \<not> pf_IncludeDeleted filter'
                then filter (\<lambda>p. pj_DeletedAt p = None) q4 else q4)
      in q5)"

definition Project_List ::
  "store \<Rightarrow> ProjectFilter \<Rightarrow> (error + Project list \<times> int) \<times> store" where
  "Project_List s filter' =
     (let rows = Project_where s filter'
      in case db_exec s of
           (True, s1) \<Rightarrow> (Inl ErrStore, s1)
         | (False, s1) \<Rightarrow>
             let total' = int (length rows);
                 sortBy = (if pf_SortBy filter' \<noteq> [] then pf_SortBy filter' else ''created_at'');
                 sortOrder = (if pf_SortOrder filter' \<noteq> [] \<and>
                                 strings_ToUpper (engine s) (pf_SortOrder filter') = ''ASC''
                              then ''ASC'' else ''DESC'');
                 page = (if pf_Page filter' < 1 then 1 else pf_Page filter');
                 pageSize1 = (if pf_PageSize filter' < 1 then 20 else pf_PageSize filter');
                 pageSize = (if pageSize1 > 100 then 100 else pageSize1)
             in (case db_exec s1 of
                   (True, s2) \<Rightarrow> (Inl ErrStore, s2)
                 | (False, s2) \<Rightarrow>
                     let found = paginate page pageSize
                                   (order_projects (engine s) (sortBy @ '' '' @ sortOrder) rows)
                     in if found = [] then (Inr ([], total'), s2)
                        else (case db_exec s2 of
                                (True, s3) \<Rightarrow> (Inl ErrStore, s3)
                              | (False, s3) \<Rightarrow>
                                  (Inr (map (preload_Workspace s3) found, total'), s3))))"

definition Project_CountByWorkspace :: "store \<Rightarrow> string \<Rightarrow> (error + int) \<times> store" where
  "Project_CountByWorkspace s workspaceID =
     (case db_exec s of
        (True, s1) \<Rightarrow> (Inl ErrStore, s1)
      | (False, s1) \<Rightarrow>
          (Inr (int (length (filter (\<lambda>p. pj_WorkspaceID p = workspaceID \<and> pj_DeletedAt p = None)
                                     (projects s1)))), s1))"

section \<open>Connection store (part_004)\<close>

definition preload_Project :: "store \<Rightarrow> AirtableBase \<Rightarrow> AirtableBase" where
  "preload_Project s b =
     b\<lparr>ab_Project :=
          map_option (preload_Workspace s)
            (find (\<lambda>p. pj_ID p = ab_ProjectID b \<and> pj_DeletedAt p = None) (projects s))\<rparr>"





definition AirtableBase_where :: "store \<Rightarrow> AirtableBaseFilter \<Rightarrow> AirtableBase list" where
  "AirtableBase_where s filter' =
     (let q0 = filter (\<lambda>b. ab_DeletedAt b = None) (airtable_bases s);
          q1 = (if bf_ProjectID filter' \<noteq> []
                then filter (\<lambda>b. ab_ProjectID b = bf_ProjectID filter') q0 else q0);
          q2 = (case bf_SyncEnabled filter' of
                  Some v \<Rightarrow> filter (\<lambda>b. ab_SyncEnabled b = v) q1
                | None \<Rightarrow> q1);
          q3 = (if bf_Search filter' \<noteq> []
                then (let search = ''%'' @ strings_ToLower (engine s) (bf_Search filter') @ ''%''
                      in filter (\<lambda>b. sql_lower_like (engine s) (ab_Name b) search \<or>
                                      sql_lower_like (engine s) (ab_Description b) search \<or>
                                      sql_lower_like (engine s) (ab_BaseID b) search) q2)
                else q2);
          q4 = filter (\<lambda>b. ab_DeletedAt b = None) q3
      in q4)"

definition AirtableBase_List ::
  "store \<Rightarrow> AirtableBaseFilter \<Rightarrow> (error + AirtableBase list \<times> int) \<times> store" where
  "AirtableBase_List s filter' =
     (let rows = AirtableBase_where s filter'
      in case db_exec s of
           (True, s1) \<Rightarrow> (Inl ErrStore, s1)
         | (False, s1) \<Rightarrow>
             let total' = int (length rows);
                 sortBy = (if bf_SortBy filter' \<noteq> [] then bf_SortBy filter' else ''created_at'');
                 sortOrder = (if bf_SortOrder filter' \<noteq> [] \<and>
                                 strings_ToUpper (engine s) (bf_SortOrder filter') = ''ASC''
                              then ''ASC'' else ''DESC'');
                 page = (if bf_Page filter' < 1 then 1 else bf_Page filter');
                 pageSize1 = (if bf_PageSize filter' < 1 then 20 else bf_PageSize filter');
                 pageSize = (if pageSize1 > 100 then 100 else pageSize1)
             in (case db_exec s1 of
                   (True, s2) \<Rightarrow> (Inl ErrStore, s2)
                 | (False, s2) \<Rightarrow>
                     let found = paginate page pageSize
                                   (order_bases (engine s) (sortBy @ '' '' @ sortOrder) rows)
                     in if found = [] then (Inr ([], total'), s2)
                        else (case db_exec s2 of
                                (True, s3) \<Rightarrow> (Inl ErrStore, s3)
                              | (False, s3) \<Rightarrow>
                                  (Inr (map (preload_Project s3) found, total'), s3))))"

section \<open>Audit-log store (audit_log_repository.go, first part)\<close>

definition AuditLog_Create :: "store \<Rightarrow> WorkspaceAuditLog \<Rightarrow> error option \<times> store" where
  "AuditLog_Create s log =
     (case audit_exec s of
        (True, s1) \<Rightarrow> (Some ErrStore, s1)
      | (False, s1) \<Rightarrow>
          (None,
           s1\<lparr>workspace_audit_logs := workspace_audit_logs s1 @
                 [log\<lparr>al_ID := (if al_ID log = [] then new_uuid s1 else al_ID log),
                      al_CreatedAt := (if al_CreatedAt log = 0 then clock s1
                                       else al_CreatedAt log)\<rparr>],
               uuid_next := (if al_ID log = [] then Suc (uuid_next s1) else uuid_next s1)\<rparr>))"

definition AuditLog_where :: "store \<Rightarrow> AuditLogFilter \<Rightarrow> WorkspaceAuditLog list" where
  "AuditLog_where s filter' =
     (let q0 = workspace_audit_logs s;
          q1 = (if af_WorkspaceID filter' \<noteq> []
                then filter (\<lambda>l. al_WorkspaceID l = af_WorkspaceID filter') q0 else q0);
          q2 = (if af_UserID filter' \<noteq> []
                then filter (\<lambda>l. al_UserID l = af_UserID filter') q1 else q1);
          q3 = (if af_Action filter' \<noteq> []
                then filter (\<lambda>l. al_Action l = af_Action filter') q2 else q2);
          q4 = (if af_ResourceType filter' \<noteq> []
                then filter (\<lambda>l. al_ResourceType l = af_ResourceType filter') q3 else q3);
          q5 = (if af_ResourceID filter' \<noteq> []
                then filter (\<lambda>l. al_ResourceID l = af_ResourceID filter') q4 else q4)
      in q5)"

definition AuditLog_List ::
  "store \<Rightarrow> AuditLogFilter \<Rightarrow> (error + WorkspaceAuditLog list \<times> int) \<times> store" where
  "AuditLog_List s filter' =
     (let rows = AuditLog_where s filter'
      in case audit_exec s of
           (True, s1) \<Rightarrow> (Inl ErrStore, s1)
         | (False, s1) \<Rightarrow>
             let total' = int (length rows);
                 sortBy = (if af_SortBy filter' \<noteq> [] then af_SortBy filter' else ''created_at'');
                 sortOrder = (if af_SortOrder filter' \<noteq> [] \<and>
                                 strings_ToUpper (engine s) (af_SortOrder filter') = ''ASC''
                              then ''ASC'' else ''DESC'');
                 page = (if af_Page filter' < 1 then 1 else af_Page filter');
                 pageSize1 = (if af_PageSize filter' < 1 then 50 else af_PageSize filter');
                 pageSize = (if pageSize1 > 100 then 100 else pageSize1)
             in (case audit_exec s1 of
                   (True, s2) \<Rightarrow> (Inl ErrStore, s2)
                 | (False, s2) \<Rightarrow>
                     (Inr (paginate page pageSize
                             (order_logs (engine s) (sortBy @ '' '' @ sortOrder) rows),
                           total'), s2)))"

section \<open>Cache store (part_002)\<close>

text \<open>
  Keys are \<open>workspace:<id>\<close>, \<open>project:<id>\<close> and \<open>user:workspaces:<userID>\<close>; the three key
  spaces are kept as three association lists from the identifier. A value is stored with the time it expires
  (\<open>cacheTTL\<close>, five minutes); an expired entry is not seen by \<open>GET\<close> or \<open>SCAN\<close>. The values
  are the JSON of the struct, read back unchanged.
\<close>

definition cacheTTL :: nat where
  "cacheTTL = 5 * 60"

definition live :: "nat \<Rightarrow> (string \<times> 'a \<times> nat) list \<Rightarrow> string \<Rightarrow> 'a option" where
  "live now entries key =
     (case map_of entries key of
        None \<Rightarrow> None
      | Some (v, expires) \<Rightarrow> if now < expires then Some v else None)"

definition Cache_SetWorkspace :: "store \<Rightarrow> Workspace \<Rightarrow> error option \<times> store" where
  "Cache_SetWorkspace s workspace =
     (case redis_exec s of
        (True, s1) \<Rightarrow> (Some ErrCache, s1)
      | (False, s1) \<Rightarrow>
          (None, s1\<lparr>cache_workspace :=
                      AList.update (ws_ID workspace) (workspace, clock s1 + cacheTTL)
                        (cache_workspace s1)\<rparr>))"

definition Cache_GetWorkspace :: "store \<Rightarrow> string \<Rightarrow> (error + Workspace option) \<times> store" where
  "Cache_GetWorkspace s id' =
     (case redis_exec s of
        (True, s1) \<Rightarrow> (Inl ErrCache, s1)
      | (False, s1) \<Rightarrow> (Inr (live (clock s1) (cache_workspace s1) id'), s1))"

definition Cache_DeleteWorkspace :: "store \<Rightarrow> string \<Rightarrow> error option \<times> store" where
  "Cache_DeleteWorkspace s id' =
     (case redis_exec s of
        (True, s1) \<Rightarrow> (Some ErrCache, s1)
      | (False, s1) \<Rightarrow>
          (None, s1\<lparr>cache_workspace := AList.delete id' (cache_workspace s1)\<rparr>))"

definition Cache_SetProject :: "store \<Rightarrow> Project \<Rightarrow> error option \<times> store" where
  "Cache_SetProject s project =
     (case redis_exec s of
        (True, s1) \<Rightarrow> (Some ErrCache, s1)
      | (False, s1) \<Rightarrow>
          (None, s1\<lparr>cache_project :=
                      AList.update (pj_ID project) (project, clock s1 + cacheTTL)
                        (cache_project s1)\<rparr>))"

definition Cache_GetProject :: "store \<Rightarrow> string \<Rightarrow> (error + Project option) \<times> store" where
  "Cache_GetProject s id' =
     (case redis_exec s of
        (True, s1) \<Rightarrow> (Inl ErrCache, s1)
      | (False, s1) \<Rightarrow> (Inr (live (clock s1) (cache_project s1) id'), s1))"

definition Cache_DeleteProject :: "store \<Rightarrow> string \<Rightarrow> error option \<times> store" where
  "Cache_DeleteProject s id' =
     (case redis_exec s of
        (True, s1) \<Rightarrow> (Some ErrCache, s1)
      | (False, s1) \<Rightarrow>
          (None, s1\<lparr>cache_project := AList.delete id' (cache_project s1)\<rparr>))"


text \<open>
  The loop of \<open>InvalidateWorkspaceCache\<close> over the scanned keys: a failed \<open>GET\<close> skips the
  key, the result of \<open>DEL\<close> is not looked at.
\<close>

fun invalidate_projects :: "string \<Rightarrow> string list \<Rightarrow> store \<Rightarrow> store" where
  "invalidate_projects workspaceID [] s = s"
| "invalidate_projects workspaceID (key # keys) s =
     (case redis_exec s of
        (True, s1) \<Rightarrow> invalidate_projects workspaceID keys s1
      | (False, s1) \<Rightarrow>
          (case live (clock s1) (cache_project s1) key of
             None \<Rightarrow> invalidate_projects workspaceID keys s1
           | Some project \<Rightarrow>
               if pj_WorkspaceID project = workspaceID then
                 (case redis_exec s1 of
                    (True, s2) \<Rightarrow> invalidate_projects workspaceID keys s2
                  | (False, s2) \<Rightarrow>
                      invalidate_projects workspaceID keys
                        (s2\<lparr>cache_project := AList.delete key (cache_project s2)\<rparr>))
               else invalidate_projects workspaceID keys s1))"

definition Cache_InvalidateWorkspaceCache :: "store \<Rightarrow> string \<Rightarrow> error option \<times> store" where
  "Cache_InvalidateWorkspaceCache s workspaceID =
     (case Cache_DeleteWorkspace s workspaceID of
        (Some err, s1) \<Rightarrow> (Some err, s1)
      | (None, s1) \<Rightarrow>
          (case redis_exec s1 of
             (True, s2) \<Rightarrow> (Some ErrCache, s2)
           | (False, s2) \<Rightarrow>
               let keys = filter (\<lambda>k. live (clock s2) (cache_project s2) k \<noteq> None)
                                 (map fst (cache_project s2))
               in (None, invalidate_projects workspaceID keys s2)))"

section \<open>Transactions (part_003, BeginTx)\<close>

text \<open>
  \<open>BeginTx\<close> opens a transaction on a connection of its own and returns the handle for
  it. No repository method takes a handle: each sends its statements through the pool
  \<open>r.db\<close> it was constructed with (\<open>New\<close> in part_003), where every statement commits on
  its own. The transaction of a handle therefore holds the statements sent through the
  handle only. \<open>Commit\<close> and \<open>Rollback\<close> are one statement each on a handle that was
  opened, and fail without a statement on a handle whose \<open>BEGIN\<close> failed.
\<close>

record tx =
  tx_failed :: bool
  tx_statements :: "(store \<Rightarrow> store) list"

definition BeginTx :: "store \<Rightarrow> tx \<times> store" where
  "BeginTx s = (case db_exec s of (failed, s1) \<Rightarrow> (\<lparr>tx_failed = failed, tx_statements = []\<rparr>, s1))"

definition Rollback :: "tx \<Rightarrow> store \<Rightarrow> error option \<times> store" where
  "Rollback t s =
     (if tx_failed t then (Some ErrStore, s)
      else (case db_exec s of
              (True, s1) \<Rightarrow> (Some ErrStore, s1)
            | (False, s1) \<Rightarrow> (None, s1)))"

definition Commit :: "tx \<Rightarrow> store \<Rightarrow> error option \<times> store" where
  "Commit t s =
     (if tx_failed t then (Some ErrStore, s)
      else (case db_exec s of
              (True, s1) \<Rightarrow> (Some ErrStore, s1)
            | (False, s1) \<Rightarrow> (None, fold (\<lambda>stmt. stmt) (tx_statements t) s1)))"

section \<open>Audit recorder (part_006)\<close>

definition LogAction ::
  "store \<Rightarrow> string \<Rightarrow> string \<Rightarrow> string \<Rightarrow> string \<Rightarrow> string \<Rightarrow> JSONMap option
     \<Rightarrow> error option \<times> store" where
  "LogAction s workspaceID userID action resourceType resourceID changes =
     (let log = \<lparr>al_ID = [], al_WorkspaceID = workspaceID, al_UserID = userID,
                 al_Action = action, al_ResourceType = resourceType,
                 al_ResourceID = resourceID, al_Changes = changes, al_CreatedAt = 0\<rparr>
      in case AuditLog_Create s log of
           (Some err, s1) \<Rightarrow> (None, s1)
         | (None, s1) \<Rightarrow> (None, s1))"

text \<open>
  The quotient and the remainder of \<open>totalPages\<close> are taken of a count, which is not
  negative, by a page size that is at least 1 at that point: Go's truncating division
  agrees with \<open>div\<close> and \<open>mod\<close> there.
\<close>

definition GetAuditLogs ::
  "store \<Rightarrow> AuditLogFilter \<Rightarrow> string \<Rightarrow> (error + AuditLogListResponse) \<times> store" where
  "GetAuditLogs s filter' userID =
     (let list_page = (\<lambda>s1.
            case AuditLog_List s1 filter' of
              (Inl err, s2) \<Rightarrow> (Inl err, s2)
            | (Inr (logs, total'), s2) \<Rightarrow>
                let page = (if af_Page filter' < 1 then 1 else af_Page filter');
                    pageSize = (if af_PageSize filter' < 1 then 50 else af_PageSize filter');
                    totalPages = (if total' mod pageSize > 0 then total' div pageSize + 1
                                  else total' div pageSize)
                in (Inr \<lparr>alr_Logs = logs, alr_Total = total', alr_Page = page,
                         alr_PageSize = pageSize, alr_TotalPages = totalPages\<rparr>, s2))
      in if af_WorkspaceID filter' \<noteq> [] then
           (case Member_GetByWorkspaceAndUser s (af_WorkspaceID filter') userID of
              (Inl err, s1) \<Rightarrow>
                if err = ErrMemberNotFound then
                  (Inr \<lparr>alr_Logs = [], alr_Total = 0, alr_Page = 1,
                        alr_PageSize = af_PageSize filter', alr_TotalPages = 0\<rparr>, s1)
                else (Inl err, s1)
            | (Inr member, s1) \<Rightarrow>
                if \<not> hasRequiredRole (wm_Role member) WorkspaceRoleAdmin
                then (Inl ErrUnauthorized, s1)
                else list_page s1)
         else list_page s)"

section \<open>Workspace service (part_007)\<close>

definition CheckUserAccess ::
  "store \<Rightarrow> string \<Rightarrow> string \<Rightarrow> WorkspaceMemberRole \<Rightarrow> error option \<times> store" where
  "CheckUserAccess s workspaceID userID requiredRole =
     (case Member_GetByWorkspaceAndUser s workspaceID userID of
        (Inl err, s1) \<Rightarrow>
          if err = ErrMemberNotFound then (Some ErrUnauthorized, s1) else (Some err, s1)
      | (Inr member, s1) \<Rightarrow>
          if \<not> hasRequiredRole (wm_Role member) requiredRole then (Some ErrUnauthorized, s1)
          else (None, s1))"

definition maxWorkspacesPerTenant :: int where
  "maxWorkspacesPerTenant = 10"

definition CreateWorkspace ::
  "store \<Rightarrow> string \<Rightarrow> string \<Rightarrow> CreateWorkspaceRequest \<Rightarrow> (error + Workspace) \<times> store" where
  "CreateWorkspace s tenantID userID req =
     (let filter' = \<lparr>wf_TenantID = tenantID, wf_Search = [], wf_CreatedBy = [], wf_Page = 0,
                     wf_PageSize = 1, wf_SortBy = [], wf_SortOrder = [],
                     wf_IncludeDeleted = False\<rparr>
      in case Workspace_List s filter' of
           (Inl err, s1) \<Rightarrow> (Inl err, s1)
         | (Inr (found, count), s1) \<Rightarrow>
             if count \<ge> maxWorkspacesPerTenant then (Inl ErrQuotaExceeded, s1)
             else
               let workspace0 = \<lparr>ws_ID = [], ws_CreatedAt = 0, ws_UpdatedAt = 0,
                                  ws_DeletedAt = None, ws_TenantID = tenantID,
                                  ws_Name = cwr_Name req,
                                  ws_Description = cwr_Description req,
                                  ws_Settings = (case cwr_Settings req of
                                                   None \<Rightarrow> Some [] | Some m \<Rightarrow> Some m),
                                  ws_CreatedBy = userID\<rparr>
               in (case BeginTx s1 of
                     (t, s2) \<Rightarrow>
                       (case Workspace_Create s2 workspace0 of
                          (Inl err, s3) \<Rightarrow> (Inl err, snd (Rollback t s3))
                        | (Inr workspace, s3) \<Rightarrow>
                            let member = \<lparr>wm_WorkspaceID = ws_ID workspace, wm_UserID = userID,
                                           wm_Role = WorkspaceRoleOwner, wm_JoinedAt = 0\<rparr>
                            in (case Member_Add s3 member of
                                  (Some err, s4) \<Rightarrow> (Inl err, snd (Rollback t s4))
                                | (None, s4) \<Rightarrow>
                                    (case Commit t s4 of
                                       (Some err, s5) \<Rightarrow> (Inl err, s5)
                                     | (None, s5) \<Rightarrow>
                                         let s6 = snd (Cache_SetWorkspace s5 workspace);
                                             s7 = snd (LogAction s6 (ws_ID workspace) userID
                                                    ''workspace.created'' ''workspace''
                                                    (ws_ID workspace)
                                                    (Some [(''name'', JStr (ws_Name workspace)),
                                                           (''description'',
                                                              JStr (ws_Description workspace)),
                                                           (''tenant_id'',
                                                              JStr (ws_TenantID workspace))]))
                                         in (Inr workspace, s7))))))"

definition GetWorkspace :: "store \<Rightarrow> string \<Rightarrow> string \<Rightarrow> (error + Workspace) \<times> store" where
  "GetWorkspace s workspaceID userID =
     (let from_database = (\<lambda>s1.
            case Workspace_GetByID s1 workspaceID of
              (Inl err, s2) \<Rightarrow> (Inl err, s2)
            | (Inr workspace, s2) \<Rightarrow>
                (case CheckUserAccess s2 workspaceID userID WorkspaceRoleViewer of
                   (Some err, s3) \<Rightarrow> (Inl err, s3)
                 | (None, s3) \<Rightarrow> (Inr workspace, snd (Cache_SetWorkspace s3 workspace))))
      in case Cache_GetWorkspace s workspaceID of
           (Inr (Some workspace), s1) \<Rightarrow>
             (case CheckUserAccess s1 workspaceID userID WorkspaceRoleViewer of
                (Some err, s2) \<Rightarrow> (Inl err, s2)
              | (None, s2) \<Rightarrow> (Inr workspace, s2))
         | (Inr None, s1) \<Rightarrow> from_database s1
         | (Inl err, s1) \<Rightarrow> from_database s1)"




definition DeleteWorkspace :: "store \<Rightarrow> string \<Rightarrow> string \<Rightarrow> error option \<times> store" where
  "DeleteWorkspace s workspaceID userID =
     (case CheckUserAccess s workspaceID userID WorkspaceRoleOwner of
        (Some err, s1) \<Rightarrow> (Some err, s1)
      | (None, s1) \<Rightarrow>
          (case Project_CountByWorkspace s1 workspaceID of
             (Inl err, s2) \<Rightarrow> (Some err, s2)
           | (Inr projectCount, s2) \<Rightarrow>
               if projectCount > 0 then (Some (Errorf_active_projects projectCount), s2)
               else (case Workspace_Delete s2 workspaceID of
                       (Some err, s3) \<Rightarrow> (Some err, s3)
                     | (None, s3) \<Rightarrow>
                         let s4 = snd (Cache_InvalidateWorkspaceCache s3 workspaceID);
                             s5 = snd (LogAction s4 workspaceID userID ''workspace.deleted''
                                         ''workspace'' workspaceID None)
                         in (None, s5))))"

section \<open>Project service (project_service.go)\<close>

definition checkProjectAccess ::
  "store \<Rightarrow> Project \<Rightarrow> string \<Rightarrow> WorkspaceMemberRole \<Rightarrow> error option \<times> store" where
  "checkProjectAccess s project userID requiredRole =
     (case Member_GetByWorkspaceAndUser s (pj_WorkspaceID project) userID of
        (Inl err, s1) \<Rightarrow>
          if err = ErrMemberNotFound then (Some ErrUnauthorized, s1) else (Some err, s1)
      | (Inr member, s1) \<Rightarrow>
          if \<not> hasRequiredRole (wm_Role member) requiredRole then (Some ErrUnauthorized, s1)
          else (None, s1))"

definition maxProjectsPerWorkspace :: int where
  "maxProjectsPerWorkspace = 50"

definition CreateProject ::
  "store \<Rightarrow> string \<Rightarrow> string \<Rightarrow> CreateProjectRequest \<Rightarrow> (error + Project) \<times> store" where
  "CreateProject s workspaceID userID req =
     (case Workspace_GetByID s workspaceID of
        (Inl err, s1) \<Rightarrow> (Inl err, s1)
      | (Inr workspace, s1) \<Rightarrow>
          (case Member_GetByWorkspaceAndUser s1 workspaceID userID of
             (Inl err, s2) \<Rightarrow>
               if err = ErrMemberNotFound then (Inl ErrUnauthorized, s2) else (Inl err, s2)
           | (Inr member, s2) \<Rightarrow>
               if \<not> hasRequiredRole (wm_Role member) WorkspaceRoleMember
               then (Inl ErrUnauthorized, s2)
               else
                 (case Project_CountByWorkspace s2 workspaceID of
                    (Inl err, s3) \<Rightarrow> (Inl err, s3)
                  | (Inr projectCount, s3) \<Rightarrow>
                      if projectCount \<ge> maxProjectsPerWorkspace then (Inl ErrQuotaExceeded, s3)
                      else
                        let project0 = \<lparr>pj_ID = [], pj_CreatedAt = 0, pj_UpdatedAt = 0,
                                         pj_DeletedAt = None, pj_WorkspaceID = workspaceID,
                                         pj_Name = cpr_Name req,
                                         pj_Description = cpr_Description req,
                                         pj_Status = ''active'',
                                         pj_Settings = (case cpr_Settings req of
                                                          None \<Rightarrow> Some [] | Some m \<Rightarrow> Some m),
                                         pj_CreatedBy = userID, pj_Workspace = None\<rparr>
                        in (case Project_Create s3 project0 of
                              (Inl err, s4) \<Rightarrow> (Inl err, s4)
                            | (Inr project1, s4) \<Rightarrow>
                                let project = project1\<lparr>pj_Workspace := Some workspace\<rparr>;
                                    s5 = snd (Cache_SetProject s4 project);
                                    s6 = snd (LogAction s5 workspaceID userID ''project.created''
                                                ''project'' (pj_ID project)
                                                (Some [(''name'', JStr (pj_Name project)),
                                                       (''description'',
                                                          JStr (pj_Description project)),
                                                       (''workspace_id'', JStr workspaceID)]))
                                in (Inr project, s6)))))"

definition DeleteProject :: "store \<Rightarrow> string \<Rightarrow> string \<Rightarrow> error option \<times> store" where
  "DeleteProject s projectID userID =
     (case Project_GetByID s projectID of
        (Inl err, s1) \<Rightarrow> (Some err, s1)
      | (Inr project, s1) \<Rightarrow>
          (case checkProjectAccess s1 project userID WorkspaceRoleAdmin of
             (Some err, s2) \<Rightarrow> (Some err, s2)
           | (None, s2) \<Rightarrow>
               let baseFilter = \<lparr>bf_ProjectID = projectID, bf_SyncEnabled = None,
                                  bf_Search = [], bf_Page = 0, bf_PageSize = 1,
                                  bf_SortBy = [], bf_SortOrder = []\<rparr>
               in (case AirtableBase_List s2 baseFilter of
                     (Inl err, s3) \<Rightarrow> (Some err, s3)
                   | (Inr (found, baseCount), s3) \<Rightarrow>
                       if baseCount > 0 then (Some (Errorf_connected_bases baseCount), s3)
                       else (case Project_Delete s3 projectID of
                               (Some err, s4) \<Rightarrow> (Some err, s4)
                             | (None, s4) \<Rightarrow>
                                 let s5 = snd (Cache_DeleteProject s4 projectID);
                                     s6 = snd (LogAction s5 (pj_WorkspaceID project) userID
                                                 ''project.deleted'' ''project'' projectID
                                                 (Some [(''name'', JStr (pj_Name project))]))
                                 in (None, s6)))))"


definition ListProjects ::
  "store \<Rightarrow> ProjectFilter \<Rightarrow> string \<Rightarrow> (error + ProjectListResponse) \<times> store" where
  "ListProjects s filter' userID =
     (let list_page = (\<lambda>s1.
            case Project_List s1 filter' of
              (Inl err, s2) \<Rightarrow> (Inl err, s2)
            | (Inr (found, total'), s2) \<Rightarrow>
                let page = (if pf_Page filter' < 1 then 1 else pf_Page filter');
                    pageSize = (if pf_PageSize filter' < 1 then 20 else pf_PageSize filter');
                    totalPages = (if total' mod pageSize > 0 then total' div pageSize + 1
                                  else total' div pageSize)
                in (Inr \<lparr>plr_Projects = found, plr_Total = total', plr_Page = page,
                         plr_PageSize = pageSize, plr_TotalPages = totalPages\<rparr>, s2))
      in if pf_WorkspaceID filter' \<noteq> [] then
           (case Member_GetByWorkspaceAndUser s (pf_WorkspaceID filter') userID of
              (Inl err, s1) \<Rightarrow>
                if err = ErrMemberNotFound then
                  (Inr \<lparr>plr_Projects = [], plr_Total = 0, plr_Page = 1,
                        plr_PageSize = pf_PageSize filter', plr_TotalPages = 0\<rparr>, s1)
                else (Inl err, s1)
            | (Inr member, s1) \<Rightarrow>
                if \<not> hasRequiredRole (wm_Role member) WorkspaceRoleViewer
                then (Inl ErrUnauthorized, s1)
                else list_page s1)
         else list_page s)"

section \<open>Connection service (airtable_base_service.go)\<close>





section \<open>Membership service (member_service.go)\<close>




definition ListMembers ::
  "store \<Rightarrow> string \<Rightarrow> string \<Rightarrow> int \<Rightarrow> int
     \<Rightarrow> (error + WorkspaceMemberListResponse) \<times> store" where
  "ListMembers s workspaceID userID page0 pageSize0 =
     (case Member_GetByWorkspaceAndUser s workspaceID userID of
        (Inl err, s1) \<Rightarrow>
          if err = ErrMemberNotFound then
            (Inr \<lparr>mlr_Members = [], mlr_Total = 0, mlr_Page = page0,
                  mlr_PageSize = pageSize0, mlr_TotalPages = 0\<rparr>, s1)
          else (Inl err, s1)
      | (Inr member, s1) \<Rightarrow>
          if \<not> hasRequiredRole (wm_Role member) WorkspaceRoleViewer
          then (Inl ErrUnauthorized, s1)
          else
            (case Member_List s1 workspaceID page0 pageSize0 of
               (Inl err, s2) \<Rightarrow> (Inl err, s2)
             | (Inr (members, total'), s2) \<Rightarrow>
                 let page = (if page0 < 1 then 1 else page0);
                     pageSize = (if pageSize0 < 1 then 20 else pageSize0);
                     totalPages = (if total' mod pageSize > 0 then total' div pageSize + 1
                                   else total' div pageSize)
                 in (Inr \<lparr>mlr_Members = members, mlr_Total = total', mlr_Page = page,
                          mlr_PageSize = pageSize, mlr_TotalPages = totalPages\<rparr>, s2)))"

section \<open>Definitions used by the statements\<close>

text \<open>
  The rank of a role as the specification gives it (4.1): owner 4, admin 3, member 2,
  viewer 1. It is written from the specification's words, to be compared with
  \<open>hasRequiredRole\<close>; outside the four roles it is not used.
\<close>

definition role_enum :: "WorkspaceMemberRole set" where
  "role_enum = {WorkspaceRoleOwner, WorkspaceRoleAdmin, WorkspaceRoleMember, WorkspaceRoleViewer}"

definition role_rank :: "WorkspaceMemberRole \<Rightarrow> nat" where
  "role_rank r =
     (if r = ''owner'' then 4 else if r = ''admin'' then 3
      else if r = ''member'' then 2 else if r = ''viewer'' then 1 else 0)"

text \<open>
  Two stores have the same rows when the four resource and membership tables, the
  platform and the clock agree (the fault schedules, the caches, the identifier counter
  and the audit log may differ).
\<close>

definition same_rows :: "store \<Rightarrow> store \<Rightarrow> bool" where
  "same_rows s t \<longleftrightarrow>
     workspaces t = workspaces s \<and> projects t = projects s \<and>
     airtable_bases t = airtable_bases s \<and> workspace_members t = workspace_members s \<and>
     engine t = engine s \<and> clock t = clock s"

text \<open>Concrete stores on which the theorems are instantiated.\<close>

definition plain_engine :: platform where
  "plain_engine =
     \<lparr>strings_ToLower = (\<lambda>x. x), strings_ToUpper = (\<lambda>x. x),
      sql_lower_like = (\<lambda>v p. True),
      order_workspaces = (\<lambda>c rows. rows), order_projects = (\<lambda>c rows. rows),
      order_bases = (\<lambda>c rows. rows), order_members = (\<lambda>c rows. rows),
      order_logs = (\<lambda>c rows. rows), gen_random_uuid = (\<lambda>n. ''id-'' @ replicate n CHR ''x'')\<rparr>"

definition empty_store :: store where
  "empty_store =
     \<lparr>workspaces = [], projects = [], airtable_bases = [], workspace_members = [],
      workspace_audit_logs = [], cache_workspace = [], cache_project = [],
      cache_user_workspaces = [], clock = 1000,
      uuid_next = 0, db_faults = [], audit_faults = [], redis_faults = [],
      engine = plain_engine\<rparr>"

definition alice_owner :: WorkspaceMember where
  "alice_owner = \<lparr>wm_WorkspaceID = ''w1'', wm_UserID = ''alice'',
                   wm_Role = ''owner'', wm_JoinedAt = 10\<rparr>"

definition bob_member :: WorkspaceMember where
  "bob_member = \<lparr>wm_WorkspaceID = ''w1'', wm_UserID = ''bob'',
                  wm_Role = ''member'', wm_JoinedAt = 20\<rparr>"

definition team_store :: store where
  "team_store = empty_store\<lparr>workspace_members := [alice_owner, bob_member]\<rparr>"

definition acme :: Workspace where
  "acme = \<lparr>ws_ID = ''w1'', ws_CreatedAt = 5, ws_UpdatedAt = 5, ws_DeletedAt = None,
            ws_TenantID = ''t1'', ws_Name = ''Acme'', ws_Description = ''main'',
            ws_Settings = Some [], ws_CreatedBy = ''alice''\<rparr>"

definition site :: Project where
  "site = \<lparr>pj_ID = ''p1'', pj_CreatedAt = 6, pj_UpdatedAt = 6, pj_DeletedAt = None,
            pj_WorkspaceID = ''w1'', pj_Name = ''Site'', pj_Description = [],
            pj_Status = ''active'', pj_Settings = Some [], pj_CreatedBy = ''alice'',
            pj_Workspace = None\<rparr>"

definition leads :: AirtableBase where
  "leads = \<lparr>ab_ID = ''b1'', ab_CreatedAt = 7, ab_UpdatedAt = 7, ab_DeletedAt = None,
             ab_ProjectID = ''p1'', ab_BaseID = ''appLeads'', ab_Name = ''Leads'',
             ab_Description = [], ab_SyncEnabled = True, ab_LastSyncAt = None,
             ab_Project = None\<rparr>"

definition acme_store :: store where
  "acme_store = team_store\<lparr>workspaces := [acme], projects := [site], airtable_bases := [leads]\<rparr>"

text \<open>
  The workspaces a tenant owns and the projects a workspace owns, not counting the
  soft-deleted ones: what the two quotas of the specification (4.3) count. The
  membership row of a user in a workspace, and the workspace with a given identifier
  that is not soft-deleted, as the store's \<open>First\<close> returns them.
\<close>

definition tenant_workspaces :: "store \<Rightarrow> string \<Rightarrow> Workspace list" where
  "tenant_workspaces s tenantID =
     filter (\<lambda>w. ws_TenantID w = tenantID \<and> ws_DeletedAt w = None) (workspaces s)"

definition workspace_projects :: "store \<Rightarrow> string \<Rightarrow> Project list" where
  "workspace_projects s workspaceID =
     filter (\<lambda>p. pj_WorkspaceID p = workspaceID \<and> pj_DeletedAt p = None) (projects s)"

definition membership :: "store \<Rightarrow> string \<Rightarrow> string \<Rightarrow> WorkspaceMember option" where
  "membership s workspaceID userID =
     find (\<lambda>m. wm_WorkspaceID m = workspaceID \<and> wm_UserID m = userID) (workspace_members s)"

definition live_workspace :: "store \<Rightarrow> string \<Rightarrow> Workspace option" where
  "live_workspace s workspaceID =
     find (\<lambda>w. ws_ID w = workspaceID \<and> ws_DeletedAt w = None) (workspaces s)"

definition many_workspaces :: "nat \<Rightarrow> Workspace list" where
  "many_workspaces k =
     map (\<lambda>n. acme\<lparr>ws_ID := ''w-'' @ replicate n CHR ''i'',
                    ws_Name := ''Team '' @ replicate n CHR ''i''\<rparr>) [0..<k]"

definition many_projects :: "nat \<Rightarrow> Project list" where
  "many_projects k =
     map (\<lambda>n. site\<lparr>pj_ID := ''p-'' @ replicate n CHR ''i'',
                    pj_Name := ''Plan '' @ replicate n CHR ''i''\<rparr>) [0..<k]"

definition tenant_store :: "nat \<Rightarrow> store" where
  "tenant_store k = empty_store\<lparr>workspaces := many_workspaces k\<rparr>"

definition full_store :: store where
  "full_store = acme_store\<lparr>projects := many_projects 50\<rparr>"

definition fresh_request :: CreateWorkspaceRequest where
  "fresh_request = \<lparr>cwr_Name = ''Fresh'', cwr_Description = [], cwr_Settings = None\<rparr>"

definition plan_request :: CreateProjectRequest where
  "plan_request = \<lparr>cpr_Name = ''Launch'', cpr_Description = [], cpr_Settings = None\<rparr>"

definition guests :: "nat \<Rightarrow> WorkspaceMember list" where
  "guests k =
     map (\<lambda>n. \<lparr>wm_WorkspaceID = ''w1'', wm_UserID = ''guest-'' @ replicate n CHR ''i'',
               wm_Role = ''viewer'', wm_JoinedAt = 30 + n\<rparr>) [0..<k]"

definition crowd_store :: store where
  "crowd_store = empty_store\<lparr>workspace_members := alice_owner # guests 149\<rparr>"

definition acme_created :: WorkspaceAuditLog where
  "acme_created = \<lparr>al_ID = ''a1'', al_WorkspaceID = ''w1'', al_UserID = ''alice'',
                    al_Action = ''workspace.created'', al_ResourceType = ''workspace'',
                    al_ResourceID = ''w1'', al_Changes = Some [(''name'', JStr ''Acme'')],
                    al_CreatedAt = 5\<rparr>"

definition audited_store :: store where
  "audited_store = acme_store\<lparr>workspace_audit_logs := [acme_created]\<rparr>"

definition no_filter :: AuditLogFilter where
  "no_filter = \<lparr>af_WorkspaceID = [], af_UserID = [], af_Action = [], af_ResourceType = [],
                 af_ResourceID = [], af_Page = 0, af_PageSize = 0, af_SortBy = [],
                 af_SortOrder = []\<rparr>"

definition failing_member_insert :: store where
  "failing_member_insert =
     empty_store\<lparr>db_faults := [False, False, False, False, False, False, True]\<rparr>"

definition fresh_row :: Workspace where
  "fresh_row = \<lparr>ws_ID = ''id-'', ws_CreatedAt = 1000, ws_UpdatedAt = 1000, ws_DeletedAt = None,
                 ws_TenantID = ''t1'', ws_Name = ''Fresh'', ws_Description = [],
                 ws_Settings = Some [], ws_CreatedBy = ''alice''\<rparr>"

definition w1_filter :: AuditLogFilter where
  "w1_filter = no_filter\<lparr>af_WorkspaceID := ''w1''\<rparr>"

definition w1_projects :: ProjectFilter where
  "w1_projects = \<lparr>pf_WorkspaceID = ''w1'', pf_Status = [], pf_Search = [], pf_CreatedBy = [],
                   pf_Page = 0, pf_PageSize = 0, pf_SortBy = [], pf_SortOrder = [],
                   pf_IncludeDeleted = False\<rparr>"


text \<open>
  Every copy of the workspace's name that a read can return is \<open>X\<close>: the rows of the
  workspace that are not deleted, and the cache entries under its key.
\<close>

definition name_settled :: "store \<Rightarrow> string \<Rightarrow> string \<Rightarrow> bool" where
  "name_settled s workspaceID X \<longleftrightarrow>
     list_all (\<lambda>w. ws_ID w = workspaceID \<and> ws_DeletedAt w = None \<longrightarrow> ws_Name w = X)
       (workspaces s) \<and>
     list_all (\<lambda>(k, w, e). k = workspaceID \<longrightarrow> ws_Name w = X) (cache_workspace s)"









section \<open>Verification\<close>

subsection \<open>Basic facts about the fault schedules\<close>

lemmas role_defs =
  WorkspaceRoleOwner_def WorkspaceRoleAdmin_def WorkspaceRoleMember_def WorkspaceRoleViewer_def

lemma db_exec_nofault: "db_faults s = [] \<Longrightarrow> db_exec s = (False, s)"
  by (simp add: db_exec_def)

lemma db_exec_eq:
  "db_exec s = (db_faults s \<noteq> [] \<and> hd (db_faults s), s\<lparr>db_faults := tl (db_faults s)\<rparr>)"
  by (cases s) (simp add: db_exec_def split: list.splits)

lemma find_by_key:
  "distinct (map f xs) \<Longrightarrow> x \<in> set xs \<Longrightarrow> find (\<lambda>m. f m = f x) xs = Some x"
  by (induction xs) (auto simp: image_iff)

subsection \<open>Role hierarchy\<close>

text \<open>
  Claim C5. On the four roles owner, admin, member and viewer, with ranks 4, 3, 2 and 1,
  \<open>hasRequiredRole\<close> holds exactly when the rank of the actual role is at least the rank of
  the required role; it is false whenever one of its arguments is not one of the four.
\<close>

theorem hasRequiredRole_rank:
  "(userRole \<in> role_enum \<and> requiredRole \<in> role_enum \<longrightarrow>
      hasRequiredRole userRole requiredRole = (role_rank userRole \<ge> role_rank requiredRole)) \<and>
   (userRole \<notin> role_enum \<or> requiredRole \<notin> role_enum \<longrightarrow>
      \<not> hasRequiredRole userRole requiredRole)"
  by (auto simp: hasRequiredRole_def roleHierarchy_def role_enum_def role_rank_def role_defs
      split: option.splits)

theorem hasRequiredRole_rank_witness:
  "WorkspaceRoleAdmin \<in> role_enum \<and> WorkspaceRoleMember \<in> role_enum \<and>
   hasRequiredRole WorkspaceRoleAdmin WorkspaceRoleMember \<and>
   ''guest'' \<notin> role_enum \<and> \<not> hasRequiredRole ''guest'' WorkspaceRoleViewer"
  using hasRequiredRole_rank [of WorkspaceRoleAdmin WorkspaceRoleMember]
    hasRequiredRole_rank [of "''guest''" WorkspaceRoleViewer]
  by (simp add: role_enum_def role_rank_def role_defs)

subsection \<open>Last owner\<close>

lemma get_owner:
  assumes pk: "distinct (map member_key (workspace_members s))"
    and one: "filter (\<lambda>m. wm_WorkspaceID m = workspaceID \<and> wm_Role m = WorkspaceRoleOwner)
                (workspace_members s) = [owner]"
    and u: "wm_UserID owner = userID"
  shows "find (\<lambda>m. wm_WorkspaceID m = workspaceID \<and> wm_UserID m = userID)
           (workspace_members s) = Some owner"
    and "wm_Role owner = WorkspaceRoleOwner"
proof -
  have "owner \<in> set (filter (\<lambda>m. wm_WorkspaceID m = workspaceID \<and> wm_Role m = WorkspaceRoleOwner)
                        (workspace_members s))"
    by (simp add: one)
  then have mem: "owner \<in> set (workspace_members s)" and w: "wm_WorkspaceID owner = workspaceID"
    and r: "wm_Role owner = WorkspaceRoleOwner"
    by auto
  have "(\<lambda>m. wm_WorkspaceID m = workspaceID \<and> wm_UserID m = userID) =
        (\<lambda>m. member_key m = member_key owner)"
    by (auto simp: member_key_def fun_eq_iff w u)
  then show "find (\<lambda>m. wm_WorkspaceID m = workspaceID \<and> wm_UserID m = userID)
           (workspace_members s) = Some owner"
    using find_by_key [OF pk mem] by simp
  show "wm_Role owner = WorkspaceRoleOwner" by (rule r)
qed

text \<open>
  Claim C1. In a workspace with exactly one owner, \<open>Remove\<close> on that owner and
  \<open>UpdateRole\<close> on that owner to a role other than owner fail with \<open>ErrLastOwner\<close> and leave
  the store as it is. When statements of the store fail, the call fails with the store's
  error instead; the membership rows are unchanged in every case.
\<close>

theorem last_owner_kept:
  assumes pk: "distinct (map member_key (workspace_members s))"
    and one: "filter (\<lambda>m. wm_WorkspaceID m = workspaceID \<and> wm_Role m = WorkspaceRoleOwner)
                (workspace_members s) = [owner]"
    and u: "wm_UserID owner = userID"
    and role: "role \<noteq> WorkspaceRoleOwner"
  shows "(db_faults s = [] \<longrightarrow>
            Member_Remove s workspaceID userID = (Some ErrLastOwner, s) \<and>
            Member_UpdateRole s workspaceID userID role = (Some ErrLastOwner, s)) \<and>
         fst (Member_Remove s workspaceID userID) \<in> {Some ErrLastOwner, Some ErrStore} \<and>
         workspace_members (snd (Member_Remove s workspaceID userID)) = workspace_members s \<and>
         fst (Member_UpdateRole s workspaceID userID role) \<in> {Some ErrLastOwner, Some ErrStore} \<and>
         workspace_members (snd (Member_UpdateRole s workspaceID userID role)) = workspace_members s"
proof -
  note f = get_owner [OF pk one u]
  have nofault: "db_faults s = [] \<longrightarrow>
            Member_Remove s workspaceID userID = (Some ErrLastOwner, s) \<and>
            Member_UpdateRole s workspaceID userID role = (Some ErrLastOwner, s)"
    using f role one
    by (simp add: Member_Remove_def Member_UpdateRole_def Member_IsLastOwner_def
        Member_GetByWorkspaceAndUser_def Member_CountOwners_def db_exec_nofault)
  have rem: "fst (Member_Remove s workspaceID userID) \<in> {Some ErrLastOwner, Some ErrStore} \<and>
         workspace_members (snd (Member_Remove s workspaceID userID)) = workspace_members s"
    using f one
    by (simp add: Member_Remove_def Member_IsLastOwner_def
        Member_GetByWorkspaceAndUser_def Member_CountOwners_def db_exec_eq split: bool.splits)
  have upd: "fst (Member_UpdateRole s workspaceID userID role) \<in> {Some ErrLastOwner, Some ErrStore} \<and>
         workspace_members (snd (Member_UpdateRole s workspaceID userID role)) = workspace_members s"
    using f one role
    by (simp add: Member_UpdateRole_def Member_IsLastOwner_def
        Member_GetByWorkspaceAndUser_def Member_CountOwners_def db_exec_eq split: bool.splits)
  from nofault rem upd show ?thesis by blast
qed

theorem last_owner_kept_witness:
  "distinct (map member_key (workspace_members team_store)) \<and>
   filter (\<lambda>m. wm_WorkspaceID m = ''w1'' \<and> wm_Role m = WorkspaceRoleOwner)
     (workspace_members team_store) = [alice_owner] \<and>
   wm_UserID alice_owner = ''alice'' \<and> WorkspaceRoleMember \<noteq> WorkspaceRoleOwner \<and>
   db_faults team_store = [] \<and>
   Member_Remove team_store ''w1'' ''alice'' = (Some ErrLastOwner, team_store) \<and>
   Member_UpdateRole team_store ''w1'' ''alice'' WorkspaceRoleMember
     = (Some ErrLastOwner, team_store)"
proof -
  have h1: "distinct (map member_key (workspace_members team_store))"
    by (simp add: team_store_def empty_store_def alice_owner_def bob_member_def member_key_def)
  have h2: "filter (\<lambda>m. wm_WorkspaceID m = ''w1'' \<and> wm_Role m = WorkspaceRoleOwner)
     (workspace_members team_store) = [alice_owner]"
    by (simp add: team_store_def empty_store_def alice_owner_def bob_member_def role_defs)
  have h3: "wm_UserID alice_owner = ''alice''"
    by (simp add: alice_owner_def)
  have h4: "WorkspaceRoleMember \<noteq> WorkspaceRoleOwner"
    by (simp add: role_defs)
  have h5: "db_faults team_store = []"
    by (simp add: team_store_def empty_store_def)
  from last_owner_kept [OF h1 h2 h3 h4] h1 h2 h3 h4 h5 show ?thesis
    by simp
qed

subsection \<open>What the read operations of the stores return\<close>

lemma same_rows_refl [simp]: "same_rows s s"
  by (simp add: same_rows_def)

lemma same_rows_trans: "same_rows s t \<Longrightarrow> same_rows t u \<Longrightarrow> same_rows s u"
  by (simp add: same_rows_def)

lemma count_pos: "(0 < int (length (filter P xs))) = (\<exists>x \<in> set xs. P x)"
  by (simp add: filter_empty_conv)

lemma db_exec_rows: "db_exec s = (f, t) \<Longrightarrow> same_rows s t"
  by (auto simp: db_exec_def same_rows_def split: list.splits)

lemma Member_Get_run:
  "Member_GetByWorkspaceAndUser s w u = (r, t) \<Longrightarrow>
     same_rows s t \<and>
     (r = Inl ErrStore \<or>
      r = (case find (\<lambda>m. wm_WorkspaceID m = w \<and> wm_UserID m = u) (workspace_members s) of
             None \<Rightarrow> Inl ErrMemberNotFound | Some m \<Rightarrow> Inr m))"
  by (auto simp: Member_GetByWorkspaceAndUser_def db_exec_eq same_rows_def
      split: bool.splits option.splits)

lemma CheckUserAccess_run:
  "CheckUserAccess s w u role = (r, t) \<Longrightarrow> same_rows s t"
  by (auto simp: CheckUserAccess_def split: prod.splits sum.splits if_splits
      dest: Member_Get_run)

lemma checkProjectAccess_run:
  "checkProjectAccess s p u role = (r, t) \<Longrightarrow> same_rows s t"
  by (auto simp: checkProjectAccess_def split: prod.splits sum.splits if_splits
      dest: Member_Get_run)

lemma Project_GetByID_run:
  "Project_GetByID s i = (r, t) \<Longrightarrow> same_rows s t"
  by (auto simp: Project_GetByID_def db_exec_eq same_rows_def
      split: bool.splits option.splits)

lemma Project_CountByWorkspace_run:
  "Project_CountByWorkspace s w = (r, t) \<Longrightarrow>
     same_rows s t \<and>
     (r = Inl ErrStore \<or>
      r = Inr (int (length (filter (\<lambda>p. pj_WorkspaceID p = w \<and> pj_DeletedAt p = None)
                              (projects s)))))"
  by (auto simp: Project_CountByWorkspace_def db_exec_eq same_rows_def split: bool.splits)

lemma list3_shape:
  assumes "(case db_exec s of
              (True, s1) \<Rightarrow> (Inl ErrStore, s1)
            | (False, s1) \<Rightarrow>
                (case db_exec s1 of
                   (True, s2) \<Rightarrow> (Inl ErrStore, s2)
                 | (False, s2) \<Rightarrow>
                     if found = [] then (Inr ([], n), s2)
                     else (case db_exec s2 of
                             (True, s3) \<Rightarrow> (Inl ErrStore, s3)
                           | (False, s3) \<Rightarrow> (Inr (g s3, n), s3)))) = (r, t)"
  shows "same_rows s t \<and> (r = Inl ErrStore \<or> (\<exists>rows. r = Inr (rows, n)))"
  using assms
  by (auto simp: db_exec_eq same_rows_def split: bool.splits if_splits)

lemma AirtableBase_where_plain:
  assumes "bf_SyncEnabled f = None" "bf_Search f = []"
  shows "AirtableBase_where s f =
     filter (\<lambda>b. ab_DeletedAt b = None \<and>
                  (bf_ProjectID f = [] \<or> ab_ProjectID b = bf_ProjectID f))
       (airtable_bases s)"
  using assms by (auto simp: AirtableBase_where_def Let_def intro: filter_cong)

lemma AirtableBase_List_count:
  assumes run: "AirtableBase_List s f = (r, t)"
    and plain: "bf_SyncEnabled f = None" "bf_Search f = []"
  shows "same_rows s t \<and>
     (r = Inl ErrStore \<or>
      (\<exists>found. r = Inr (found,
         int (length (filter (\<lambda>b. ab_DeletedAt b = None \<and>
                                  (bf_ProjectID f = [] \<or> ab_ProjectID b = bf_ProjectID f))
                        (airtable_bases s))))))"
  using list3_shape [OF run [unfolded AirtableBase_List_def Let_def]]
  by (simp add: AirtableBase_where_plain [OF plain])

subsection \<open>Deleting a parent that has children\<close>

text \<open>
  Claim C8. \<open>DeleteProject\<close> on a project that has a connection that is not deleted fails,
  and \<open>DeleteWorkspace\<close> on a workspace that has a project that is not deleted fails; the
  tables of the parent and of the children are left as they are, so the parent stays
  undeleted and no child is deleted. This holds whoever calls and whichever statements
  of the store fail.
\<close>

theorem delete_rejected_with_children:
  "((\<exists>b \<in> set (airtable_bases s). ab_ProjectID b = projectID \<and> ab_DeletedAt b = None) \<longrightarrow>
      fst (DeleteProject s projectID userID) \<noteq> None \<and>
      projects (snd (DeleteProject s projectID userID)) = projects s \<and>
      airtable_bases (snd (DeleteProject s projectID userID)) = airtable_bases s) \<and>
   ((\<exists>p \<in> set (projects s). pj_WorkspaceID p = workspaceID \<and> pj_DeletedAt p = None) \<longrightarrow>
      fst (DeleteWorkspace s workspaceID userID) \<noteq> None \<and>
      workspaces (snd (DeleteWorkspace s workspaceID userID)) = workspaces s \<and>
      projects (snd (DeleteWorkspace s workspaceID userID)) = projects s)"
proof (intro conjI impI)
  assume b: "\<exists>b \<in> set (airtable_bases s). ab_ProjectID b = projectID \<and> ab_DeletedAt b = None"
  have "fst (DeleteProject s projectID userID) \<noteq> None \<and>
      same_rows s (snd (DeleteProject s projectID userID))"
  proof (cases "Project_GetByID s projectID")
    case (Pair r1 s1)
    note g = Project_GetByID_run [OF Pair]
    show ?thesis
    proof (cases r1)
      case (Inl e)
      with Pair g show ?thesis by (simp add: DeleteProject_def)
    next
      case (Inr project)
      show ?thesis
      proof (cases "checkProjectAccess s1 project userID WorkspaceRoleAdmin")
        case a: (Pair r2 s2)
        note c = checkProjectAccess_run [OF a]
        show ?thesis
        proof (cases r2)
          case (Some e)
          with Pair Inr a g c show ?thesis
            by (simp add: DeleteProject_def same_rows_def)
        next
          case None
          obtain r3 s3 where l: "AirtableBase_List s2
              \<lparr>bf_ProjectID = projectID, bf_SyncEnabled = None, bf_Search = [], bf_Page = 0,
                 bf_PageSize = 1, bf_SortBy = [], bf_SortOrder = []\<rparr> = (r3, s3)"
            by (cases "AirtableBase_List s2
              \<lparr>bf_ProjectID = projectID, bf_SyncEnabled = None, bf_Search = [], bf_Page = 0,
                 bf_PageSize = 1, bf_SortBy = [], bf_SortOrder = []\<rparr>") blast
          have m: "same_rows s2 s3 \<and>
             (r3 = Inl ErrStore \<or>
              (\<exists>found. r3 = Inr (found,
                 int (length (filter (\<lambda>b. ab_DeletedAt b = None \<and>
                                          (projectID = [] \<or> ab_ProjectID b = projectID))
                                (airtable_bases s2))))))"
            using AirtableBase_List_count [OF l] by simp
          have bases: "airtable_bases s2 = airtable_bases s"
            using g c by (simp add: same_rows_def)
          have rows: "same_rows s s3"
            using g c m by (simp add: same_rows_def)
          have "0 < int (length (filter (\<lambda>b. ab_DeletedAt b = None \<and>
                                          (projectID = [] \<or> ab_ProjectID b = projectID))
                                (airtable_bases s2)))"
            unfolding count_pos bases using b by blast
          with m have "r3 = Inl ErrStore \<or> (\<exists>found n. r3 = Inr (found, n) \<and> 0 < n)"
            by blast
          then show ?thesis
            using Pair Inr a None l rows
            by (auto simp: DeleteProject_def)
        qed
      qed
    qed
  qed
  then show "fst (DeleteProject s projectID userID) \<noteq> None"
    "projects (snd (DeleteProject s projectID userID)) = projects s"
    "airtable_bases (snd (DeleteProject s projectID userID)) = airtable_bases s"
    by (simp_all add: same_rows_def)
next
  assume p: "\<exists>p \<in> set (projects s). pj_WorkspaceID p = workspaceID \<and> pj_DeletedAt p = None"
  have "fst (DeleteWorkspace s workspaceID userID) \<noteq> None \<and>
      same_rows s (snd (DeleteWorkspace s workspaceID userID))"
  proof (cases "CheckUserAccess s workspaceID userID WorkspaceRoleOwner")
    case (Pair r1 s1)
    note c = CheckUserAccess_run [OF Pair]
    show ?thesis
    proof (cases r1)
      case (Some e)
      with Pair c show ?thesis by (simp add: DeleteWorkspace_def)
    next
      case None
      obtain r2 s2 where n: "Project_CountByWorkspace s1 workspaceID = (r2, s2)"
        by (cases "Project_CountByWorkspace s1 workspaceID") blast
      note m = Project_CountByWorkspace_run [OF n]
      have ps: "projects s1 = projects s" using c by (simp add: same_rows_def)
      have "0 < int (length (filter (\<lambda>p. pj_WorkspaceID p = workspaceID \<and> pj_DeletedAt p = None)
                              (projects s1)))"
        unfolding count_pos ps using p by blast
      with m have "r2 = Inl ErrStore \<or> (\<exists>k. r2 = Inr k \<and> 0 < k)"
        by auto
      moreover have "same_rows s s2" using c m by (simp add: same_rows_def)
      ultimately show ?thesis
        using Pair None n by (auto simp: DeleteWorkspace_def)
    qed
  qed
  then show "fst (DeleteWorkspace s workspaceID userID) \<noteq> None"
    "workspaces (snd (DeleteWorkspace s workspaceID userID)) = workspaces s"
    "projects (snd (DeleteWorkspace s workspaceID userID)) = projects s"
    by (simp_all add: same_rows_def)
qed

lemmas acme_defs = acme_store_def team_store_def empty_store_def plain_engine_def
  acme_def site_def leads_def alice_owner_def bob_member_def

theorem delete_rejected_with_children_witness:
  "(\<exists>b \<in> set (airtable_bases acme_store). ab_ProjectID b = ''p1'' \<and> ab_DeletedAt b = None) \<and>
   (\<exists>p \<in> set (projects acme_store). pj_WorkspaceID p = ''w1'' \<and> pj_DeletedAt p = None) \<and>
   DeleteProject acme_store ''p1'' ''alice'' = (Some (Errorf_connected_bases 1), acme_store) \<and>
   projects (snd (DeleteProject acme_store ''p1'' ''alice'')) = [site] \<and>
   airtable_bases (snd (DeleteProject acme_store ''p1'' ''alice'')) = [leads] \<and>
   DeleteWorkspace acme_store ''w1'' ''alice'' = (Some (Errorf_active_projects 1), acme_store) \<and>
   workspaces (snd (DeleteWorkspace acme_store ''w1'' ''alice'')) = [acme] \<and>
   projects (snd (DeleteWorkspace acme_store ''w1'' ''alice'')) = [site]"
proof -
  have h1: "\<exists>b \<in> set (airtable_bases acme_store). ab_ProjectID b = ''p1'' \<and> ab_DeletedAt b = None"
    by (simp add: acme_defs)
  have h2: "\<exists>p \<in> set (projects acme_store). pj_WorkspaceID p = ''w1'' \<and> pj_DeletedAt p = None"
    by (simp add: acme_defs)
  have t: "projects acme_store = [site]" "airtable_bases acme_store = [leads]"
    "workspaces acme_store = [acme]"
    by (simp_all add: acme_store_def)
  have e1: "DeleteProject acme_store ''p1'' ''alice'' =
      (Some (Errorf_connected_bases 1), acme_store)"
    by (simp add: DeleteProject_def Project_GetByID_def checkProjectAccess_def
        Member_GetByWorkspaceAndUser_def AirtableBase_List_def AirtableBase_where_def
        db_exec_def Let_def
        hasRequiredRole_def roleHierarchy_def role_defs acme_defs preload_Workspace_def)
  have e2: "DeleteWorkspace acme_store ''w1'' ''alice'' =
      (Some (Errorf_active_projects 1), acme_store)"
    by (simp add: DeleteWorkspace_def CheckUserAccess_def Project_CountByWorkspace_def
        Member_GetByWorkspaceAndUser_def db_exec_def Let_def
        hasRequiredRole_def roleHierarchy_def role_defs acme_defs)
  from delete_rejected_with_children [of acme_store "''p1''" "''alice''" "''w1''"] h1 h2 e1 e2
  show ?thesis by (simp add: t)
qed

lemma redis_exec_eq:
  "redis_exec s =
     (redis_faults s \<noteq> [] \<and> hd (redis_faults s), s\<lparr>redis_faults := tl (redis_faults s)\<rparr>)"
  by (cases s) (simp add: redis_exec_def split: list.splits)

lemma audit_exec_eq:
  "audit_exec s =
     (audit_faults s \<noteq> [] \<and> hd (audit_faults s), s\<lparr>audit_faults := tl (audit_faults s)\<rparr>)"
  by (cases s) (simp add: audit_exec_def split: list.splits)

lemma Cache_SetWorkspace_rows:
  "same_rows s (snd (Cache_SetWorkspace s w))"
  "db_faults (snd (Cache_SetWorkspace s w)) = db_faults s"
  "workspace_audit_logs (snd (Cache_SetWorkspace s w)) = workspace_audit_logs s"
  by (simp_all add: Cache_SetWorkspace_def redis_exec_eq same_rows_def split: bool.splits)

lemma Cache_SetProject_rows:
  "same_rows s (snd (Cache_SetProject s p))"
  "db_faults (snd (Cache_SetProject s p)) = db_faults s"
  "workspace_audit_logs (snd (Cache_SetProject s p)) = workspace_audit_logs s"
  by (simp_all add: Cache_SetProject_def redis_exec_eq same_rows_def split: bool.splits)

lemma LogAction_rows:
  "same_rows s (snd (LogAction s w u a rt ri ch))"
  "db_faults (snd (LogAction s w u a rt ri ch)) = db_faults s"
  "fst (LogAction s w u a rt ri ch) = None"
  by (simp_all add: LogAction_def AuditLog_Create_def audit_exec_eq same_rows_def Let_def
      split: bool.splits)

lemma length_filter_mono:
  "(\<And>x. P x \<Longrightarrow> Q x) \<Longrightarrow> length (filter P xs) \<le> length (filter Q xs)"
  by (induction xs) auto

lemma list2_shape:
  assumes "(case db_exec s of
              (True, s1) \<Rightarrow> (Inl ErrStore, s1)
            | (False, s1) \<Rightarrow>
                (case db_exec s1 of
                   (True, s2) \<Rightarrow> (Inl ErrStore, s2)
                 | (False, s2) \<Rightarrow> (Inr (found, n), s2))) = (r, t)"
  shows "same_rows s t \<and> (r = Inl ErrStore \<or> r = Inr (found, n)) \<and>
         (db_faults s = [] \<longrightarrow> t = s \<and> r = Inr (found, n))"
  using assms
  by (auto simp: db_exec_def same_rows_def split: bool.splits list.splits)

lemma Workspace_where_plain:
  assumes "wf_Search f = []" "wf_CreatedBy f = []"
  shows "Workspace_where s f =
     filter (\<lambda>w. ws_DeletedAt w = None \<and> (wf_TenantID f = [] \<or> ws_TenantID w = wf_TenantID f))
       (workspaces s)"
  using assms by (auto simp: Workspace_where_def Let_def intro: filter_cong)

lemma Workspace_List_plain:
  assumes run: "Workspace_List s f = (r, t)"
    and plain: "wf_Search f = []" "wf_CreatedBy f = []"
  shows "\<exists>found. same_rows s t \<and>
     (r = Inl ErrStore \<or> r = Inr (found,
         int (length (filter (\<lambda>w. ws_DeletedAt w = None \<and>
                                  (wf_TenantID f = [] \<or> ws_TenantID w = wf_TenantID f))
                        (workspaces s)))))
        \<and> (db_faults s = [] \<longrightarrow> t = s \<and> r = Inr (found,
         int (length (filter (\<lambda>w. ws_DeletedAt w = None \<and>
                                  (wf_TenantID f = [] \<or> ws_TenantID w = wf_TenantID f))
                        (workspaces s)))))"
  using list2_shape [OF run [unfolded Workspace_List_def Let_def]]
  unfolding Workspace_where_plain [OF plain] by blast

subsection \<open>Quotas\<close>

lemma BeginTx_ok:
  "db_faults s = [] \<Longrightarrow> BeginTx s = (\<lparr>tx_failed = False, tx_statements = []\<rparr>, s)"
  by (simp add: BeginTx_def db_exec_nofault)

lemma Commit_ok:
  "db_faults s = [] \<Longrightarrow> Commit \<lparr>tx_failed = False, tx_statements = []\<rparr> s = (None, s)"
  by (simp add: Commit_def db_exec_nofault)

lemma Workspace_Create_ok:
  assumes "db_faults s = []"
    and "\<forall>w \<in> set (workspaces s). ws_TenantID w = ws_TenantID workspace \<and> ws_DeletedAt w = None
           \<longrightarrow> ws_Name w \<noteq> ws_Name workspace"
    and "ws_ID workspace = []" "ws_CreatedAt workspace = 0" "ws_UpdatedAt workspace = 0"
    and "ws_Settings workspace = Some m"
  shows "Workspace_Create s workspace =
     (Inr (workspace\<lparr>ws_ID := new_uuid s, ws_CreatedAt := clock s, ws_UpdatedAt := clock s\<rparr>),
      s\<lparr>workspaces := workspaces s @
            [workspace\<lparr>ws_ID := new_uuid s, ws_CreatedAt := clock s, ws_UpdatedAt := clock s\<rparr>],
        uuid_next := Suc (uuid_next s)\<rparr>)"
proof -
  have "filter (\<lambda>w. ws_TenantID w = ws_TenantID workspace \<and> ws_Name w = ws_Name workspace \<and>
                    ws_DeletedAt w = None) (workspaces s) = []"
    using assms(2) by (auto simp: filter_empty_conv)
  then show ?thesis
    using assms(1,3-)
    by (cases workspace) (simp add: Workspace_Create_def db_exec_nofault Let_def)
qed

lemma Member_Add_ok:
  assumes "db_faults s = []"
    and "\<forall>x \<in> set (workspace_members s). wm_WorkspaceID x \<noteq> wm_WorkspaceID member"
    and "wm_JoinedAt member = 0"
  shows "Member_Add s member =
     (None, s\<lparr>workspace_members := workspace_members s @ [member\<lparr>wm_JoinedAt := clock s\<rparr>]\<rparr>)"
proof -
  have "filter (\<lambda>x. wm_WorkspaceID x = wm_WorkspaceID member \<and> wm_UserID x = wm_UserID member)
          (workspace_members s) = []"
    using assms(2) by (auto simp: filter_empty_conv)
  then show ?thesis
    using assms(1,3) by (simp add: Member_Add_def db_exec_nofault Let_def)
qed

lemma CreateWorkspace_ok:
  assumes nf: "db_faults s = []"
    and t: "tenantID \<noteq> []"
    and q: "int (length (tenant_workspaces s tenantID)) < maxWorkspacesPerTenant"
    and name: "\<forall>w \<in> set (tenant_workspaces s tenantID). ws_Name w \<noteq> cwr_Name req"
    and fresh: "\<forall>m \<in> set (workspace_members s). wm_WorkspaceID m \<noteq> new_uuid s"
  shows "\<exists>row. fst (CreateWorkspace s tenantID userID req) = Inr row \<and>
           ws_ID row = new_uuid s \<and> ws_TenantID row = tenantID \<and> ws_Name row = cwr_Name req \<and>
           ws_CreatedBy row = userID \<and> ws_DeletedAt row = None \<and>
           workspaces (snd (CreateWorkspace s tenantID userID req)) = workspaces s @ [row] \<and>
           workspace_members (snd (CreateWorkspace s tenantID userID req)) =
             workspace_members s @
               [\<lparr>wm_WorkspaceID = ws_ID row, wm_UserID = userID, wm_Role = WorkspaceRoleOwner,
                 wm_JoinedAt = clock s\<rparr>]"
proof -
  define f where "f = \<lparr>wf_TenantID = tenantID, wf_Search = [], wf_CreatedBy = [], wf_Page = 0,
                     wf_PageSize = 1, wf_SortBy = [], wf_SortOrder = [],
                     wf_IncludeDeleted = False\<rparr>"
  define w0 where "w0 = \<lparr>ws_ID = [], ws_CreatedAt = 0, ws_UpdatedAt = 0,
                                  ws_DeletedAt = None, ws_TenantID = tenantID,
                                  ws_Name = cwr_Name req,
                                  ws_Description = cwr_Description req,
                                  ws_Settings = (case cwr_Settings req of
                                                   None \<Rightarrow> Some [] | Some m \<Rightarrow> Some m),
                                  ws_CreatedBy = userID\<rparr>"
  define row where "row = w0\<lparr>ws_ID := new_uuid s, ws_CreatedAt := clock s, ws_UpdatedAt := clock s\<rparr>"
  define s3 where "s3 = s\<lparr>workspaces := workspaces s @ [row], uuid_next := Suc (uuid_next s)\<rparr>"
  define mem where "mem = \<lparr>wm_WorkspaceID = ws_ID row, wm_UserID = userID,
                            wm_Role = WorkspaceRoleOwner, wm_JoinedAt = 0\<rparr>"
  define s4 where "s4 = s3\<lparr>workspace_members := workspace_members s3 @ [mem\<lparr>wm_JoinedAt := clock s3\<rparr>]\<rparr>"
  obtain r1 s1 where l: "Workspace_List s f = (r1, s1)"
    by (cases "Workspace_List s f") blast
  have cnt: "filter (\<lambda>w. ws_DeletedAt w = None \<and> (wf_TenantID f = [] \<or> ws_TenantID w = wf_TenantID f))
               (workspaces s) = tenant_workspaces s tenantID"
    using t by (auto simp: f_def tenant_workspaces_def intro: filter_cong)
  from Workspace_List_plain [OF l] nf
  obtain found where l1: "Workspace_List s f = (Inr (found, int (length (tenant_workspaces s tenantID))), s)"
    unfolding cnt using l by (auto simp: f_def)
  have sett: "\<exists>m. ws_Settings w0 = Some m"
    by (simp add: w0_def split: option.splits)
  then obtain m where sm: "ws_Settings w0 = Some m" by blast
  have c: "Workspace_Create s w0 = (Inr row, s3)"
    unfolding row_def s3_def
    by (rule Workspace_Create_ok [OF nf _ _ _ _ sm])
      (use name in \<open>auto simp: w0_def tenant_workspaces_def\<close>)
  have nf3: "db_faults s3 = []" by (simp add: s3_def nf)
  have a: "Member_Add s3 mem = (None, s4)"
    unfolding s4_def
    by (rule Member_Add_ok [OF nf3]) (use fresh in \<open>auto simp: mem_def s3_def row_def\<close>)
  have nf4: "db_faults s4 = []" by (simp add: s4_def nf3)
  have res: "CreateWorkspace s tenantID userID req =
      (Inr row, snd (LogAction (snd (Cache_SetWorkspace s4 row)) (ws_ID row) userID
                       ''workspace.created'' ''workspace'' (ws_ID row)
                       (Some [(''name'', JStr (ws_Name row)),
                              (''description'', JStr (ws_Description row)),
                              (''tenant_id'', JStr (ws_TenantID row))])))"
    using q
    by (simp add: CreateWorkspace_def Let_def l1 [unfolded f_def] BeginTx_ok [OF nf]
        c [unfolded w0_def] a [unfolded mem_def] Commit_ok [OF nf4])
  have rows: "same_rows s4 (snd (CreateWorkspace s tenantID userID req))"
    unfolding res snd_conv
    by (rule same_rows_trans [OF Cache_SetWorkspace_rows(1) LogAction_rows(1)])
  show ?thesis
    using rows
    by (intro exI [of _ row])
      (simp add: res same_rows_def s4_def s3_def row_def w0_def mem_def)
qed

lemma Member_Get_ok:
  "db_faults s = [] \<Longrightarrow>
   Member_GetByWorkspaceAndUser s w u =
     ((case membership s w u of None \<Rightarrow> Inl ErrMemberNotFound | Some m \<Rightarrow> Inr m), s)"
  by (simp add: Member_GetByWorkspaceAndUser_def membership_def db_exec_nofault
      split: option.splits)

lemma Workspace_GetByID_run:
  "Workspace_GetByID s i = (r, t) \<Longrightarrow>
     same_rows s t \<and>
     (r = Inl ErrStore \<or>
      r = (case live_workspace s i of
             None \<Rightarrow> Inl repositories_ErrWorkspaceNotFound | Some w \<Rightarrow> Inr w))"
  by (auto simp: Workspace_GetByID_def live_workspace_def db_exec_eq same_rows_def
      split: bool.splits option.splits)

lemma Workspace_GetByID_ok:
  "db_faults s = [] \<Longrightarrow>
   Workspace_GetByID s i =
     ((case live_workspace s i of
         None \<Rightarrow> Inl repositories_ErrWorkspaceNotFound | Some w \<Rightarrow> Inr w), s)"
  by (simp add: Workspace_GetByID_def live_workspace_def db_exec_nofault split: option.splits)

lemma Project_CountByWorkspace_ok:
  "db_faults s = [] \<Longrightarrow>
   Project_CountByWorkspace s w = (Inr (int (length (workspace_projects s w))), s)"
  by (simp add: Project_CountByWorkspace_def workspace_projects_def db_exec_nofault)

lemma CreateWorkspace_quota:
  assumes q: "maxWorkspacesPerTenant \<le> int (length (tenant_workspaces s tenantID))"
  shows "isl (fst (CreateWorkspace s tenantID userID req)) \<and>
         same_rows s (snd (CreateWorkspace s tenantID userID req)) \<and>
         (db_faults s = [] \<longrightarrow>
            CreateWorkspace s tenantID userID req = (Inl ErrQuotaExceeded, s))"
proof -
  define f where "f = \<lparr>wf_TenantID = tenantID, wf_Search = [], wf_CreatedBy = [], wf_Page = 0,
                     wf_PageSize = 1, wf_SortBy = [], wf_SortOrder = [],
                     wf_IncludeDeleted = False\<rparr>"
  define n where "n = int (length (filter (\<lambda>w. ws_DeletedAt w = None \<and>
                                  (wf_TenantID f = [] \<or> ws_TenantID w = wf_TenantID f))
                        (workspaces s)))"
  obtain r1 s1 where l: "Workspace_List s f = (r1, s1)"
    by (cases "Workspace_List s f") blast
  have "length (tenant_workspaces s tenantID) \<le>
        length (filter (\<lambda>w. ws_DeletedAt w = None \<and>
                                  (wf_TenantID f = [] \<or> ws_TenantID w = wf_TenantID f))
                        (workspaces s))"
    unfolding tenant_workspaces_def by (rule length_filter_mono) (simp add: f_def)
  with q have big: "maxWorkspacesPerTenant \<le> n"
    by (simp add: n_def)
  from Workspace_List_plain [OF l] obtain found where
    rows: "same_rows s s1" and r: "r1 = Inl ErrStore \<or> r1 = Inr (found, n)"
    and ok: "db_faults s = [] \<longrightarrow> s1 = s \<and> r1 = Inr (found, n)"
    unfolding n_def by (auto simp: f_def)
  show ?thesis
    using r rows ok big l [unfolded f_def]
    by (auto simp: CreateWorkspace_def Let_def)
qed

lemma CreateProject_quota:
  assumes q: "maxProjectsPerWorkspace \<le> int (length (workspace_projects s workspaceID))"
  shows "isl (fst (CreateProject s workspaceID userID req)) \<and>
         same_rows s (snd (CreateProject s workspaceID userID req)) \<and>
         (db_faults s = [] \<and> live_workspace s workspaceID \<noteq> None \<and>
          (\<exists>m. membership s workspaceID userID = Some m \<and>
                hasRequiredRole (wm_Role m) WorkspaceRoleMember) \<longrightarrow>
            CreateProject s workspaceID userID req = (Inl ErrQuotaExceeded, s))"
proof (intro conjI impI)
  have "isl (fst (CreateProject s workspaceID userID req)) \<and>
         same_rows s (snd (CreateProject s workspaceID userID req))"
  proof (cases "Workspace_GetByID s workspaceID")
    case (Pair r1 s1)
    note g = Workspace_GetByID_run [OF Pair]
    show ?thesis
    proof (cases r1)
      case (Inl e)
      with Pair g show ?thesis by (simp add: CreateProject_def)
    next
      case (Inr workspace)
      obtain r2 s2 where m: "Member_GetByWorkspaceAndUser s1 workspaceID userID = (r2, s2)"
        by (cases "Member_GetByWorkspaceAndUser s1 workspaceID userID") blast
      note mr = Member_Get_run [OF m]
      have rows2: "same_rows s s2" using g mr by (simp add: same_rows_def)
      show ?thesis
      proof (cases r2)
        case e: (Inl e)
        with Pair Inr m rows2 show ?thesis by (simp add: CreateProject_def)
      next
        case mem: (Inr member)
        obtain r3 s3 where c: "Project_CountByWorkspace s2 workspaceID = (r3, s3)"
          by (cases "Project_CountByWorkspace s2 workspaceID") blast
        note cr = Project_CountByWorkspace_run [OF c]
        have rows3: "same_rows s s3" using rows2 cr by (simp add: same_rows_def)
        have "projects s2 = projects s" using rows2 by (simp add: same_rows_def)
        with cr q have "r3 = Inl ErrStore \<or> (\<exists>k. r3 = Inr k \<and> maxProjectsPerWorkspace \<le> k)"
          by (auto simp: workspace_projects_def)
        then show ?thesis
          using Pair Inr m mem c rows2 rows3
          by (auto simp: CreateProject_def)
      qed
    qed
  qed
  then show "isl (fst (CreateProject s workspaceID userID req))"
    "same_rows s (snd (CreateProject s workspaceID userID req))"
    by simp_all
next
  assume a: "db_faults s = [] \<and> live_workspace s workspaceID \<noteq> None \<and>
          (\<exists>m. membership s workspaceID userID = Some m \<and>
                hasRequiredRole (wm_Role m) WorkspaceRoleMember)"
  then show "CreateProject s workspaceID userID req = (Inl ErrQuotaExceeded, s)"
    using q
    by (auto simp: CreateProject_def Workspace_GetByID_ok Member_Get_ok
        Project_CountByWorkspace_ok)
qed

text \<open>
  Claim C7. \<open>CreateWorkspace\<close> for a tenant that owns 10 or more workspaces that are not
  deleted fails and creates no row, with \<open>ErrQuotaExceeded\<close> when the store answers; for
  a tenant that owns fewer (9, say) it succeeds and adds the workspace and the creator's
  owner row, provided the name is free in the tenant, the new identifier is fresh and the
  store answers. \<open>CreateProject\<close> in a workspace that owns 50 or more projects that are not
  deleted fails and creates no row, with \<open>ErrQuotaExceeded\<close> when the store answers, the
  workspace exists and the caller has the member role in it.
\<close>

theorem quota_boundary:
  "(10 \<le> int (length (tenant_workspaces s tenantID)) \<longrightarrow>
      isl (fst (CreateWorkspace s tenantID userID req)) \<and>
      workspaces (snd (CreateWorkspace s tenantID userID req)) = workspaces s \<and>
      workspace_members (snd (CreateWorkspace s tenantID userID req)) = workspace_members s \<and>
      (db_faults s = [] \<longrightarrow>
         CreateWorkspace s tenantID userID req = (Inl ErrQuotaExceeded, s))) \<and>
   (int (length (tenant_workspaces s tenantID)) < 10 \<and> tenantID \<noteq> [] \<and> db_faults s = [] \<and>
    (\<forall>w \<in> set (tenant_workspaces s tenantID). ws_Name w \<noteq> cwr_Name req) \<and>
    (\<forall>m \<in> set (workspace_members s). wm_WorkspaceID m \<noteq> new_uuid s) \<longrightarrow>
      (\<exists>row. fst (CreateWorkspace s tenantID userID req) = Inr row \<and>
         ws_ID row = new_uuid s \<and> ws_TenantID row = tenantID \<and> ws_Name row = cwr_Name req \<and>
         ws_CreatedBy row = userID \<and> ws_DeletedAt row = None \<and>
         workspaces (snd (CreateWorkspace s tenantID userID req)) = workspaces s @ [row] \<and>
         workspace_members (snd (CreateWorkspace s tenantID userID req)) =
           workspace_members s @
             [\<lparr>wm_WorkspaceID = ws_ID row, wm_UserID = userID, wm_Role = WorkspaceRoleOwner,
               wm_JoinedAt = clock s\<rparr>])) \<and>
   (50 \<le> int (length (workspace_projects s workspaceID)) \<longrightarrow>
      isl (fst (CreateProject s workspaceID userID preq)) \<and>
      projects (snd (CreateProject s workspaceID userID preq)) = projects s \<and>
      (db_faults s = [] \<and> live_workspace s workspaceID \<noteq> None \<and>
       (\<exists>m. membership s workspaceID userID = Some m \<and>
             hasRequiredRole (wm_Role m) WorkspaceRoleMember) \<longrightarrow>
         CreateProject s workspaceID userID preq = (Inl ErrQuotaExceeded, s)))"
proof (intro conjI)
  show "10 \<le> int (length (tenant_workspaces s tenantID)) \<longrightarrow>
      isl (fst (CreateWorkspace s tenantID userID req)) \<and>
      workspaces (snd (CreateWorkspace s tenantID userID req)) = workspaces s \<and>
      workspace_members (snd (CreateWorkspace s tenantID userID req)) = workspace_members s \<and>
      (db_faults s = [] \<longrightarrow>
         CreateWorkspace s tenantID userID req = (Inl ErrQuotaExceeded, s))"
    using CreateWorkspace_quota [of s tenantID userID req]
    by (simp add: maxWorkspacesPerTenant_def same_rows_def)
  show "int (length (tenant_workspaces s tenantID)) < 10 \<and> tenantID \<noteq> [] \<and> db_faults s = [] \<and>
    (\<forall>w \<in> set (tenant_workspaces s tenantID). ws_Name w \<noteq> cwr_Name req) \<and>
    (\<forall>m \<in> set (workspace_members s). wm_WorkspaceID m \<noteq> new_uuid s) \<longrightarrow>
      (\<exists>row. fst (CreateWorkspace s tenantID userID req) = Inr row \<and>
         ws_ID row = new_uuid s \<and> ws_TenantID row = tenantID \<and> ws_Name row = cwr_Name req \<and>
         ws_CreatedBy row = userID \<and> ws_DeletedAt row = None \<and>
         workspaces (snd (CreateWorkspace s tenantID userID req)) = workspaces s @ [row] \<and>
         workspace_members (snd (CreateWorkspace s tenantID userID req)) =
           workspace_members s @
             [\<lparr>wm_WorkspaceID = ws_ID row, wm_UserID = userID, wm_Role = WorkspaceRoleOwner,
               wm_JoinedAt = clock s\<rparr>])"
    using CreateWorkspace_ok [of s tenantID req userID]
    by (simp add: maxWorkspacesPerTenant_def)
  show "50 \<le> int (length (workspace_projects s workspaceID)) \<longrightarrow>
      isl (fst (CreateProject s workspaceID userID preq)) \<and>
      projects (snd (CreateProject s workspaceID userID preq)) = projects s \<and>
      (db_faults s = [] \<and> live_workspace s workspaceID \<noteq> None \<and>
       (\<exists>m. membership s workspaceID userID = Some m \<and>
             hasRequiredRole (wm_Role m) WorkspaceRoleMember) \<longrightarrow>
         CreateProject s workspaceID userID preq = (Inl ErrQuotaExceeded, s))"
    using CreateProject_quota [of s workspaceID userID preq]
    by (simp add: maxProjectsPerWorkspace_def same_rows_def)
qed

lemma tenant_store_count:
  "tenant_workspaces (tenant_store k) ''t1'' = many_workspaces k"
  by (simp add: tenant_workspaces_def tenant_store_def empty_store_def many_workspaces_def
      acme_def filter_map comp_def)

lemma full_store_count:
  "workspace_projects full_store ''w1'' = many_projects 50"
  by (simp add: workspace_projects_def full_store_def acme_store_def many_projects_def
      site_def filter_map comp_def)

theorem quota_boundary_witness:
  "int (length (tenant_workspaces (tenant_store 10) ''t1'')) = 10 \<and>
   CreateWorkspace (tenant_store 10) ''t1'' ''alice'' fresh_request
     = (Inl ErrQuotaExceeded, tenant_store 10) \<and>
   int (length (tenant_workspaces (tenant_store 9) ''t1'')) = 9 \<and>
   (\<exists>row. fst (CreateWorkspace (tenant_store 9) ''t1'' ''alice'' fresh_request) = Inr row \<and>
      ws_Name row = ''Fresh'' \<and>
      workspaces (snd (CreateWorkspace (tenant_store 9) ''t1'' ''alice'' fresh_request))
        = many_workspaces 9 @ [row] \<and>
      workspace_members (snd (CreateWorkspace (tenant_store 9) ''t1'' ''alice'' fresh_request))
        = [\<lparr>wm_WorkspaceID = ws_ID row, wm_UserID = ''alice'', wm_Role = WorkspaceRoleOwner,
            wm_JoinedAt = 1000\<rparr>]) \<and>
   int (length (workspace_projects full_store ''w1'')) = 50 \<and>
   CreateProject full_store ''w1'' ''bob'' plan_request = (Inl ErrQuotaExceeded, full_store)"
proof -
  have c10: "int (length (tenant_workspaces (tenant_store 10) ''t1'')) = 10"
    and c9: "int (length (tenant_workspaces (tenant_store 9) ''t1'')) = 9"
    by (simp_all add: tenant_store_count many_workspaces_def)
  have c50: "int (length (workspace_projects full_store ''w1'')) = 50"
    by (simp add: full_store_count many_projects_def)
  have nf: "db_faults (tenant_store k) = []" for k
    by (simp add: tenant_store_def empty_store_def)
  have names: "\<forall>w \<in> set (tenant_workspaces (tenant_store 9) ''t1'').
                 ws_Name w \<noteq> cwr_Name fresh_request"
    by (simp add: tenant_store_count many_workspaces_def fresh_request_def)
  have fresh: "\<forall>m \<in> set (workspace_members (tenant_store 9)).
                 wm_WorkspaceID m \<noteq> new_uuid (tenant_store 9)"
    by (simp add: tenant_store_def empty_store_def)
  have t: "workspaces (tenant_store 9) = many_workspaces 9"
    "workspace_members (tenant_store 9) = []" "clock (tenant_store 9) = 1000"
    by (simp_all add: tenant_store_def empty_store_def)
  have nf2: "db_faults full_store = []"
    by (simp add: full_store_def acme_defs)
  have lw: "live_workspace full_store ''w1'' \<noteq> None"
    by (simp add: live_workspace_def full_store_def acme_defs)
  have mb: "\<exists>m. membership full_store ''w1'' ''bob'' = Some m \<and>
                hasRequiredRole (wm_Role m) WorkspaceRoleMember"
    by (simp add: membership_def full_store_def acme_defs hasRequiredRole_def
        roleHierarchy_def role_defs)
  have a: "CreateWorkspace (tenant_store 10) ''t1'' ''alice'' fresh_request
     = (Inl ErrQuotaExceeded, tenant_store 10)"
    using quota_boundary [of "tenant_store 10" "''t1''" "''alice''" fresh_request] c10 nf
    by simp
  have b: "\<exists>row. fst (CreateWorkspace (tenant_store 9) ''t1'' ''alice'' fresh_request) = Inr row \<and>
      ws_Name row = ''Fresh'' \<and>
      workspaces (snd (CreateWorkspace (tenant_store 9) ''t1'' ''alice'' fresh_request))
        = many_workspaces 9 @ [row] \<and>
      workspace_members (snd (CreateWorkspace (tenant_store 9) ''t1'' ''alice'' fresh_request))
        = [\<lparr>wm_WorkspaceID = ws_ID row, wm_UserID = ''alice'', wm_Role = WorkspaceRoleOwner,
            wm_JoinedAt = 1000\<rparr>]"
  proof -
    have hyp: "int (length (tenant_workspaces (tenant_store 9) ''t1'')) < 10 \<and> ''t1'' \<noteq> [] \<and>
        db_faults (tenant_store 9) = [] \<and>
        (\<forall>w \<in> set (tenant_workspaces (tenant_store 9) ''t1'').
            ws_Name w \<noteq> cwr_Name fresh_request) \<and>
        (\<forall>m \<in> set (workspace_members (tenant_store 9)).
            wm_WorkspaceID m \<noteq> new_uuid (tenant_store 9))"
      using c9 nf names fresh by simp
    from quota_boundary [of "tenant_store 9" "''t1''" "''alice''" fresh_request,
        THEN conjunct2, THEN conjunct1, THEN mp, OF hyp]
    obtain row where "fst (CreateWorkspace (tenant_store 9) ''t1'' ''alice'' fresh_request) = Inr row"
      "ws_Name row = cwr_Name fresh_request"
      "workspaces (snd (CreateWorkspace (tenant_store 9) ''t1'' ''alice'' fresh_request))
         = workspaces (tenant_store 9) @ [row]"
      "workspace_members (snd (CreateWorkspace (tenant_store 9) ''t1'' ''alice'' fresh_request)) =
           workspace_members (tenant_store 9) @
             [\<lparr>wm_WorkspaceID = ws_ID row, wm_UserID = ''alice'', wm_Role = WorkspaceRoleOwner,
               wm_JoinedAt = clock (tenant_store 9)\<rparr>]"
      by blast
    then show ?thesis
      by (intro exI [of _ row]) (simp add: t fresh_request_def)
  qed
  have c: "CreateProject full_store ''w1'' ''bob'' plan_request = (Inl ErrQuotaExceeded, full_store)"
    using quota_boundary [where s = full_store and workspaceID = "''w1''" and userID = "''bob''"
        and preq = plan_request] c50 nf2 lw mb
    by simp
  from a b c c10 c9 c50 show ?thesis by blast
qed

subsection \<open>Listing members\<close>

lemma Member_List_run:
  assumes run: "Member_List s w page pageSize = (r, t)"
  shows "same_rows s t \<and>
     (r = Inl ErrStore \<or>
      r = Inr (paginate (if page < 1 then 1 else page)
                 (if (if pageSize < 1 then 20 else pageSize) > 100 then 100
                  else (if pageSize < 1 then 20 else pageSize))
                 (order_members (engine s) ''joined_at DESC''
                    (filter (\<lambda>m. wm_WorkspaceID m = w) (workspace_members s))),
               int (length (filter (\<lambda>m. wm_WorkspaceID m = w) (workspace_members s))))) \<and>
     (db_faults s = [] \<longrightarrow> t = s \<and> r \<noteq> Inl ErrStore)"
  using list2_shape [OF run [unfolded Member_List_def Let_def]] by auto

lemma length_paginate: "0 \<le> pageSize \<Longrightarrow> int (length (paginate page pageSize rows)) \<le> pageSize"
  by (simp add: paginate_def Let_def)

text \<open>
  Claim C10. When a member of the workspace asks \<open>ListMembers\<close> for a page size above 100,
  every response reports the page size as it was asked for and the number of pages
  computed from it, while the members returned are the page the store cut with a page
  size of 100, so at most 100 of them. With a role of the hierarchy and a store that
  answers there is such a response.
\<close>

theorem list_members_two_page_sizes:
  "membership s workspaceID userID = Some member \<and> 100 < pageSize \<longrightarrow>
     (ListMembers s workspaceID userID page pageSize = (Inr resp, t) \<longrightarrow>
        mlr_PageSize resp = pageSize \<and>
        mlr_Total resp =
          int (length (filter (\<lambda>m. wm_WorkspaceID m = workspaceID) (workspace_members s))) \<and>
        mlr_TotalPages resp =
          (if mlr_Total resp mod pageSize > 0 then mlr_Total resp div pageSize + 1
           else mlr_Total resp div pageSize) \<and>
        mlr_Members resp =
          paginate (if page < 1 then 1 else page) 100
            (order_members (engine s) ''joined_at DESC''
               (filter (\<lambda>m. wm_WorkspaceID m = workspaceID) (workspace_members s))) \<and>
        length (mlr_Members resp) \<le> 100) \<and>
     (db_faults s = [] \<and> hasRequiredRole (wm_Role member) WorkspaceRoleViewer \<longrightarrow>
        \<not> isl (fst (ListMembers s workspaceID userID page pageSize)))"
proof (intro impI conjI; elim conjE)
  assume m: "membership s workspaceID userID = Some member" and big: "100 < pageSize"
  {
    assume run: "ListMembers s workspaceID userID page pageSize = (Inr resp, t)"
    obtain r1 s1 where g: "Member_GetByWorkspaceAndUser s workspaceID userID = (r1, s1)"
      by (cases "Member_GetByWorkspaceAndUser s workspaceID userID") blast
    from Member_Get_run [OF g] m have rows1: "same_rows s s1"
      and r1: "r1 = Inl ErrStore \<or> r1 = Inr member"
      by (simp_all add: membership_def)
    obtain r2 s2 where l: "Member_List s1 workspaceID page pageSize = (r2, s2)"
      by (cases "Member_List s1 workspaceID page pageSize") blast
    note lr = Member_List_run [OF l]
    have same: "workspace_members s1 = workspace_members s" "engine s1 = engine s"
      using rows1 by (simp_all add: same_rows_def)
    from run g r1 l lr big
    have resp: "resp = \<lparr>mlr_Members =
          paginate (if page < 1 then 1 else page) 100
            (order_members (engine s) ''joined_at DESC''
               (filter (\<lambda>m. wm_WorkspaceID m = workspaceID) (workspace_members s))),
        mlr_Total = int (length (filter (\<lambda>m. wm_WorkspaceID m = workspaceID) (workspace_members s))),
        mlr_Page = (if page < 1 then 1 else page), mlr_PageSize = pageSize,
        mlr_TotalPages =
          (if int (length (filter (\<lambda>m. wm_WorkspaceID m = workspaceID) (workspace_members s)))
                mod pageSize > 0
           then int (length (filter (\<lambda>m. wm_WorkspaceID m = workspaceID) (workspace_members s)))
                div pageSize + 1
           else int (length (filter (\<lambda>m. wm_WorkspaceID m = workspaceID) (workspace_members s)))
                div pageSize)\<rparr>"
      by (auto simp: ListMembers_def Let_def same split: if_splits)
    have len: "int (length (paginate (if page < 1 then 1 else page) 100
            (order_members (engine s) ''joined_at DESC''
               (filter (\<lambda>m. wm_WorkspaceID m = workspaceID) (workspace_members s))))) \<le> 100"
      by (rule length_paginate) simp
    have "mlr_PageSize resp = pageSize \<and>
        mlr_Total resp =
          int (length (filter (\<lambda>m. wm_WorkspaceID m = workspaceID) (workspace_members s))) \<and>
        mlr_TotalPages resp =
          (if mlr_Total resp mod pageSize > 0 then mlr_Total resp div pageSize + 1
           else mlr_Total resp div pageSize) \<and>
        mlr_Members resp =
          paginate (if page < 1 then 1 else page) 100
            (order_members (engine s) ''joined_at DESC''
               (filter (\<lambda>m. wm_WorkspaceID m = workspaceID) (workspace_members s))) \<and>
        length (mlr_Members resp) \<le> 100"
      using len by (simp add: resp)
  }
  then show "ListMembers s workspaceID userID page pageSize = (Inr resp, t) \<Longrightarrow>
        mlr_PageSize resp = pageSize"
    and "ListMembers s workspaceID userID page pageSize = (Inr resp, t) \<Longrightarrow> mlr_Total resp =
          int (length (filter (\<lambda>m. wm_WorkspaceID m = workspaceID) (workspace_members s)))"
    and "ListMembers s workspaceID userID page pageSize = (Inr resp, t) \<Longrightarrow> mlr_TotalPages resp =
          (if mlr_Total resp mod pageSize > 0 then mlr_Total resp div pageSize + 1
           else mlr_Total resp div pageSize)"
    and "ListMembers s workspaceID userID page pageSize = (Inr resp, t) \<Longrightarrow> mlr_Members resp =
          paginate (if page < 1 then 1 else page) 100
            (order_members (engine s) ''joined_at DESC''
               (filter (\<lambda>m. wm_WorkspaceID m = workspaceID) (workspace_members s)))"
    and "ListMembers s workspaceID userID page pageSize = (Inr resp, t) \<Longrightarrow>
          length (mlr_Members resp) \<le> 100"
    by blast+
  {
    assume nf: "db_faults s = []" and role: "hasRequiredRole (wm_Role member) WorkspaceRoleViewer"
    obtain r2 s2 where l: "Member_List s workspaceID page pageSize = (r2, s2)"
      by (cases "Member_List s workspaceID page pageSize") blast
    from Member_List_run [OF l] nf have "s2 = s" "\<exists>x. r2 = Inr x"
      by auto
    then have "\<not> isl (fst (ListMembers s workspaceID userID page pageSize))"
      using m nf role l
      by (auto simp: ListMembers_def Member_Get_ok Let_def)
  }
  then show "db_faults s = [] \<Longrightarrow> hasRequiredRole (wm_Role member) WorkspaceRoleViewer \<Longrightarrow>
        \<not> isl (fst (ListMembers s workspaceID userID page pageSize))"
    by blast
qed

theorem list_members_two_page_sizes_witness:
  "membership crowd_store ''w1'' ''alice'' = Some alice_owner \<and> (100::int) < 500 \<and>
   db_faults crowd_store = [] \<and> hasRequiredRole (wm_Role alice_owner) WorkspaceRoleViewer \<and>
   (\<exists>resp t. ListMembers crowd_store ''w1'' ''alice'' 1 500 = (Inr resp, t) \<and>
      mlr_PageSize resp = 500 \<and> mlr_Total resp = 150 \<and> mlr_TotalPages resp = 1 \<and>
      length (mlr_Members resp) = 100)"
proof -
  have m: "membership crowd_store ''w1'' ''alice'' = Some alice_owner"
    by (simp add: membership_def crowd_store_def empty_store_def alice_owner_def)
  have nf: "db_faults crowd_store = []"
    by (simp add: crowd_store_def empty_store_def)
  have role: "hasRequiredRole (wm_Role alice_owner) WorkspaceRoleViewer"
    by (simp add: hasRequiredRole_def roleHierarchy_def role_defs alice_owner_def)
  have rows: "filter (\<lambda>m. wm_WorkspaceID m = ''w1'') (workspace_members crowd_store)
      = alice_owner # guests 149"
    by (simp add: crowd_store_def empty_store_def alice_owner_def guests_def filter_map comp_def)
  have eng: "order_members (engine crowd_store) c xs = xs" for c xs
    by (simp add: crowd_store_def empty_store_def plain_engine_def)
  have len: "length (paginate 1 100 (alice_owner # guests 149)) = 100"
    by (simp add: paginate_def int64_wrap_def guests_def)
  have lg: "length (guests 149) = 149"
    by (simp add: guests_def)
  note inst = list_members_two_page_sizes [of crowd_store "''w1''" "''alice''" alice_owner 500 1]
  from inst m nf role have "\<not> isl (fst (ListMembers crowd_store ''w1'' ''alice'' 1 500))"
    by simp
  then obtain resp t where run: "ListMembers crowd_store ''w1'' ''alice'' 1 500 = (Inr resp, t)"
    by (cases "ListMembers crowd_store ''w1'' ''alice'' 1 500"; cases "fst (ListMembers crowd_store ''w1'' ''alice'' 1 500)") auto
  from list_members_two_page_sizes [of crowd_store "''w1''" "''alice''" alice_owner 500 1 resp t]
    m run
  have "mlr_PageSize resp = 500 \<and> mlr_Total resp = 150 \<and> mlr_TotalPages resp = 1 \<and>
      length (mlr_Members resp) = 100"
    by (simp add: rows eng len lg)
  with m nf role run show ?thesis by simp
qed

lemma empty_store_fields:
  "workspaces empty_store = []" "projects empty_store = []" "airtable_bases empty_store = []"
  "workspace_members empty_store = []" "workspace_audit_logs empty_store = []"
  "cache_workspace empty_store = []" "cache_project empty_store = []"
  "cache_user_workspaces empty_store = []"
  "clock empty_store = 1000" "uuid_next empty_store = 0" "db_faults empty_store = []"
  "audit_faults empty_store = []" "redis_faults empty_store = []"
  "engine empty_store = plain_engine"
  by (simp_all add: empty_store_def)

lemma plain_engine_fields:
  "strings_ToLower plain_engine x = x" "strings_ToUpper plain_engine x = x"
  "sql_lower_like plain_engine v p = True"
  "order_workspaces plain_engine c ws = ws" "order_projects plain_engine c ps = ps"
  "order_bases plain_engine c bs = bs" "order_members plain_engine c ms = ms"
  "order_logs plain_engine c ls = ls"
  "gen_random_uuid plain_engine n = ''id-'' @ replicate n CHR ''x''"
  by (simp_all add: plain_engine_def)

lemma audit_exec_nofault: "audit_faults s = [] \<Longrightarrow> audit_exec s = (False, s)"
  by (simp add: audit_exec_def)

lemma redis_exec_nofault: "redis_faults s = [] \<Longrightarrow> redis_exec s = (False, s)"
  by (simp add: redis_exec_def)

lemma db_exec_head:
  "db_faults s = f # fs \<Longrightarrow> db_exec s = (f, s\<lparr>db_faults := fs\<rparr>)"
  by (simp add: db_exec_def)

subsection \<open>Who reads the audit log\<close>

text \<open>
  Claim C4 (the code departs from it). With no workspace in the filter \<open>GetAuditLogs\<close>
  checks nothing: a caller with no membership at all receives the audit entries of
  workspace \<open>w1\<close>. With the workspace in the filter the same caller receives an empty page.
\<close>

theorem audit_log_read_without_membership:
  "membership audited_store ''w1'' ''mallory'' = None \<and>
   GetAuditLogs audited_store no_filter ''mallory'' =
     (Inr \<lparr>alr_Logs = [acme_created], alr_Total = 1, alr_Page = 1, alr_PageSize = 50,
           alr_TotalPages = 1\<rparr>, audited_store) \<and>
   GetAuditLogs audited_store (no_filter\<lparr>af_WorkspaceID := ''w1''\<rparr>) ''mallory'' =
     (Inr \<lparr>alr_Logs = [], alr_Total = 0, alr_Page = 1, alr_PageSize = 0,
           alr_TotalPages = 0\<rparr>, audited_store)"
proof -
  have f: "workspace_audit_logs audited_store = [acme_created]"
    "workspace_members audited_store = [alice_owner, bob_member]"
    "db_faults audited_store = []" "audit_faults audited_store = []"
    "engine audited_store = plain_engine"
    by (simp_all add: audited_store_def acme_store_def team_store_def empty_store_fields)
  have m: "membership audited_store ''w1'' ''mallory'' = None"
    by (simp add: membership_def f alice_owner_def bob_member_def)
  have w: "AuditLog_where audited_store no_filter = [acme_created]"
    by (simp add: AuditLog_where_def no_filter_def f)
  have l: "AuditLog_List audited_store no_filter = (Inr ([acme_created], 1), audited_store)"
    by (simp add: AuditLog_List_def w [unfolded no_filter_def] audit_exec_nofault f
        plain_engine_fields paginate_def int64_wrap_def no_filter_def)
  have a: "GetAuditLogs audited_store no_filter ''mallory'' =
     (Inr \<lparr>alr_Logs = [acme_created], alr_Total = 1, alr_Page = 1, alr_PageSize = 50,
           alr_TotalPages = 1\<rparr>, audited_store)"
    by (simp add: GetAuditLogs_def l) (simp add: no_filter_def)
  have b: "GetAuditLogs audited_store (no_filter\<lparr>af_WorkspaceID := ''w1''\<rparr>) ''mallory'' =
     (Inr \<lparr>alr_Logs = [], alr_Total = 0, alr_Page = 1, alr_PageSize = 0,
           alr_TotalPages = 0\<rparr>, audited_store)"
    using m by (simp add: GetAuditLogs_def Member_Get_ok f no_filter_def)
  from m a b show ?thesis by simp
qed

subsection \<open>Creating a workspace and its owner\<close>

text \<open>
  Claim C2 (the code departs from it). The workspace row and the owner row are written
  through the repositories, outside the transaction that \<open>CreateWorkspace\<close> opens. When the
  statement that inserts the owner row fails, \<open>CreateWorkspace\<close> returns the error, rolls
  back the transaction, which holds no statement, and the workspace row stays in the
  store without any membership row.
\<close>

theorem create_workspace_leaves_workspace_without_owner:
  "fst (CreateWorkspace failing_member_insert ''t1'' ''alice'' fresh_request) = Inl ErrStore \<and>
   workspaces (snd (CreateWorkspace failing_member_insert ''t1'' ''alice'' fresh_request))
     = [fresh_row] \<and>
   workspace_members (snd (CreateWorkspace failing_member_insert ''t1'' ''alice'' fresh_request))
     = []"
  by code_simp

subsection \<open>Callers without a membership row\<close>

lemma Member_Get_result:
  "Member_GetByWorkspaceAndUser s w u = (r, t) \<Longrightarrow>
     same_rows s t \<and>
     (r = Inl ErrStore \<or>
      r = (case membership s w u of None \<Rightarrow> Inl ErrMemberNotFound | Some m \<Rightarrow> Inr m))"
  using Member_Get_run [of s w u r t] by (simp add: membership_def)

lemma CheckUserAccess_result:
  "CheckUserAccess s w u role = (r, t) \<Longrightarrow>
     same_rows s t \<and>
     (r = Some ErrStore \<or>
      r = (case membership s w u of
             None \<Rightarrow> Some ErrUnauthorized
           | Some m \<Rightarrow> if hasRequiredRole (wm_Role m) role then None else Some ErrUnauthorized))"
  by (auto simp: CheckUserAccess_def split: prod.splits sum.splits if_splits option.splits
      dest!: Member_Get_result)

lemma CheckUserAccess_ok:
  "db_faults s = [] \<Longrightarrow>
   CheckUserAccess s w u role =
     ((case membership s w u of
         None \<Rightarrow> Some ErrUnauthorized
       | Some m \<Rightarrow> if hasRequiredRole (wm_Role m) role then None else Some ErrUnauthorized), s)"
  by (simp add: CheckUserAccess_def Member_Get_ok split: option.splits)

lemma Cache_GetWorkspace_run:
  "Cache_GetWorkspace s i = (r, t) \<Longrightarrow> same_rows s t \<and> db_faults t = db_faults s"
  by (auto simp: Cache_GetWorkspace_def redis_exec_eq same_rows_def split: bool.splits)

lemma GetWorkspace_non_member:
  assumes m: "membership s workspaceID userID = None"
  shows "isl (fst (GetWorkspace s workspaceID userID))"
    and "db_faults s = [] \<Longrightarrow> live_workspace s workspaceID \<noteq> None \<Longrightarrow>
           fst (GetWorkspace s workspaceID userID) = Inl ErrUnauthorized"
proof -
  obtain r1 s1 where c: "Cache_GetWorkspace s workspaceID = (r1, s1)"
    by (cases "Cache_GetWorkspace s workspaceID") blast
  note cr = Cache_GetWorkspace_run [OF c]
  have m1: "membership s1 workspaceID userID = None"
    using cr m by (simp add: same_rows_def membership_def)
  have hit: "isl (fst (case CheckUserAccess s1 workspaceID userID WorkspaceRoleViewer of
                         (Some err, s2) \<Rightarrow> (Inl err, s2)
                       | (None, s2) \<Rightarrow> (Inr w, s2)))" for w :: Workspace
    using m1
    by (auto split: prod.splits option.splits dest!: CheckUserAccess_result)
  have miss: "isl (fst (case Workspace_GetByID s1 workspaceID of
              (Inl err, s2) \<Rightarrow> (Inl err, s2)
            | (Inr workspace, s2) \<Rightarrow>
                (case CheckUserAccess s2 workspaceID userID WorkspaceRoleViewer of
                   (Some err, s3) \<Rightarrow> (Inl err, s3)
                 | (None, s3) \<Rightarrow> (Inr workspace, snd (Cache_SetWorkspace s3 workspace)))))"
    using m1
    by (auto simp: same_rows_def membership_def split: prod.splits sum.splits option.splits
        dest!: CheckUserAccess_result Workspace_GetByID_run)
  show "isl (fst (GetWorkspace s workspaceID userID))"
    using hit miss
    by (simp add: GetWorkspace_def c split: sum.splits option.splits)
  assume nf: "db_faults s = []" and lw: "live_workspace s workspaceID \<noteq> None"
  have nf1: "db_faults s1 = []" using cr nf by simp
  have lw1: "live_workspace s1 workspaceID \<noteq> None"
    using cr lw by (simp add: same_rows_def live_workspace_def)
  show "fst (GetWorkspace s workspaceID userID) = Inl ErrUnauthorized"
    using m1 lw1
    by (auto simp: GetWorkspace_def c CheckUserAccess_ok [OF nf1] Workspace_GetByID_ok [OF nf1]
        split: sum.splits option.splits)
qed

text \<open>
  Claim C3 as stated fails: a caller with no membership row in workspace \<open>w1\<close> gets a
  successful empty page from \<open>ListMembers\<close>, from \<open>GetAuditLogs\<close> and from \<open>ListProjects\<close>, and
  gets the repository's not-found error from \<open>GetWorkspace\<close> for a workspace that does not
  exist; none of the four is \<open>ErrUnauthorized\<close>.
\<close>

theorem non_member_not_unauthorized:
  "membership acme_store ''w1'' ''mallory'' = None \<and>
   ListMembers acme_store ''w1'' ''mallory'' 1 20 =
     (Inr \<lparr>mlr_Members = [], mlr_Total = 0, mlr_Page = 1, mlr_PageSize = 20,
           mlr_TotalPages = 0\<rparr>, acme_store) \<and>
   GetAuditLogs acme_store w1_filter ''mallory'' =
     (Inr \<lparr>alr_Logs = [], alr_Total = 0, alr_Page = 1, alr_PageSize = 0,
           alr_TotalPages = 0\<rparr>, acme_store) \<and>
   ListProjects acme_store w1_projects ''mallory'' =
     (Inr \<lparr>plr_Projects = [], plr_Total = 0, plr_Page = 1, plr_PageSize = 0,
           plr_TotalPages = 0\<rparr>, acme_store) \<and>
   membership acme_store ''w9'' ''mallory'' = None \<and>
   GetWorkspace acme_store ''w9'' ''mallory'' = (Inl repositories_ErrWorkspaceNotFound, acme_store)"
proof -
  have nf: "db_faults acme_store = []" "redis_faults acme_store = []"
    by (simp_all add: acme_store_def team_store_def empty_store_fields)
  have m: "membership acme_store ''w1'' ''mallory'' = None"
    "membership acme_store ''w9'' ''mallory'' = None"
    "live_workspace acme_store ''w9'' = None"
    "live (clock acme_store) (cache_workspace acme_store) ''w9'' = None"
    by (simp_all add: membership_def live_workspace_def live_def acme_store_def team_store_def
        empty_store_fields alice_owner_def bob_member_def acme_def)
  show ?thesis
    using m
    by (simp add: ListMembers_def GetAuditLogs_def ListProjects_def GetWorkspace_def
        Cache_GetWorkspace_def redis_exec_nofault nf Member_Get_ok Workspace_GetByID_ok
        w1_filter_def no_filter_def w1_projects_def)
qed

text \<open>
  Claim C3 as amended. For a caller with no membership row in the workspace,
  \<open>ListMembers\<close>, \<open>GetAuditLogs\<close> with that workspace in the filter and \<open>ListProjects\<close> with
  that workspace in the filter return a successful empty page (no entries, total 0, no
  pages), or the store's error when the membership lookup fails. \<open>GetWorkspace\<close> never
  returns the workspace to such a caller, and returns \<open>ErrUnauthorized\<close> when the workspace
  exists, is not deleted and the store answers.
\<close>

theorem non_member_access:
  "membership s workspaceID userID = None \<longrightarrow>
     (fst (ListMembers s workspaceID userID page pageSize) \<in>
        {Inr \<lparr>mlr_Members = [], mlr_Total = 0, mlr_Page = page, mlr_PageSize = pageSize,
              mlr_TotalPages = 0\<rparr>, Inl ErrStore}) \<and>
     (db_faults s = [] \<longrightarrow>
        ListMembers s workspaceID userID page pageSize =
          (Inr \<lparr>mlr_Members = [], mlr_Total = 0, mlr_Page = page, mlr_PageSize = pageSize,
                mlr_TotalPages = 0\<rparr>, s)) \<and>
     (af_WorkspaceID af = workspaceID \<and> workspaceID \<noteq> [] \<longrightarrow>
        (fst (GetAuditLogs s af userID) \<in>
           {Inr \<lparr>alr_Logs = [], alr_Total = 0, alr_Page = 1, alr_PageSize = af_PageSize af,
                 alr_TotalPages = 0\<rparr>, Inl ErrStore}) \<and>
        (db_faults s = [] \<longrightarrow>
           GetAuditLogs s af userID =
             (Inr \<lparr>alr_Logs = [], alr_Total = 0, alr_Page = 1, alr_PageSize = af_PageSize af,
                   alr_TotalPages = 0\<rparr>, s))) \<and>
     (pf_WorkspaceID pf = workspaceID \<and> workspaceID \<noteq> [] \<longrightarrow>
        (fst (ListProjects s pf userID) \<in>
           {Inr \<lparr>plr_Projects = [], plr_Total = 0, plr_Page = 1, plr_PageSize = pf_PageSize pf,
                 plr_TotalPages = 0\<rparr>, Inl ErrStore}) \<and>
        (db_faults s = [] \<longrightarrow>
           ListProjects s pf userID =
             (Inr \<lparr>plr_Projects = [], plr_Total = 0, plr_Page = 1, plr_PageSize = pf_PageSize pf,
                   plr_TotalPages = 0\<rparr>, s))) \<and>
     isl (fst (GetWorkspace s workspaceID userID)) \<and>
     (db_faults s = [] \<and> live_workspace s workspaceID \<noteq> None \<longrightarrow>
        fst (GetWorkspace s workspaceID userID) = Inl ErrUnauthorized)"
proof (intro impI)
  assume m: "membership s workspaceID userID = None"
  obtain r1 s1 where g: "Member_GetByWorkspaceAndUser s workspaceID userID = (r1, s1)"
    by (cases "Member_GetByWorkspaceAndUser s workspaceID userID") blast
  from Member_Get_result [OF g] m have r1: "r1 = Inl ErrStore \<or> r1 = Inl ErrMemberNotFound"
    by simp
  have ok: "db_faults s = [] \<Longrightarrow>
      Member_GetByWorkspaceAndUser s workspaceID userID = (Inl ErrMemberNotFound, s)"
    using m by (simp add: Member_Get_ok)
  have lm: "fst (ListMembers s workspaceID userID page pageSize) \<in>
        {Inr \<lparr>mlr_Members = [], mlr_Total = 0, mlr_Page = page, mlr_PageSize = pageSize,
              mlr_TotalPages = 0\<rparr>, Inl ErrStore}"
    using r1 by (auto simp: ListMembers_def g)
  have lm_ok: "db_faults s = [] \<longrightarrow>
        ListMembers s workspaceID userID page pageSize =
          (Inr \<lparr>mlr_Members = [], mlr_Total = 0, mlr_Page = page, mlr_PageSize = pageSize,
                mlr_TotalPages = 0\<rparr>, s)"
    by (simp add: ListMembers_def ok)
  have al1: "af_WorkspaceID af = workspaceID \<and> workspaceID \<noteq> [] \<longrightarrow>
        (fst (GetAuditLogs s af userID) \<in>
           {Inr \<lparr>alr_Logs = [], alr_Total = 0, alr_Page = 1, alr_PageSize = af_PageSize af,
                 alr_TotalPages = 0\<rparr>, Inl ErrStore})"
    using r1 by (auto simp: GetAuditLogs_def g)
  have al2: "af_WorkspaceID af = workspaceID \<and> workspaceID \<noteq> [] \<longrightarrow>
        (db_faults s = [] \<longrightarrow>
           GetAuditLogs s af userID =
             (Inr \<lparr>alr_Logs = [], alr_Total = 0, alr_Page = 1, alr_PageSize = af_PageSize af,
                   alr_TotalPages = 0\<rparr>, s))"
    by (auto simp: GetAuditLogs_def ok)
  have lp1: "pf_WorkspaceID pf = workspaceID \<and> workspaceID \<noteq> [] \<longrightarrow>
        (fst (ListProjects s pf userID) \<in>
           {Inr \<lparr>plr_Projects = [], plr_Total = 0, plr_Page = 1, plr_PageSize = pf_PageSize pf,
                 plr_TotalPages = 0\<rparr>, Inl ErrStore})"
    using r1 by (auto simp: ListProjects_def g)
  have lp2: "pf_WorkspaceID pf = workspaceID \<and> workspaceID \<noteq> [] \<longrightarrow>
        (db_faults s = [] \<longrightarrow>
           ListProjects s pf userID =
             (Inr \<lparr>plr_Projects = [], plr_Total = 0, plr_Page = 1, plr_PageSize = pf_PageSize pf,
                   plr_TotalPages = 0\<rparr>, s))"
    by (auto simp: ListProjects_def ok)
  note gw = GetWorkspace_non_member [OF m]
  from lm lm_ok al1 al2 lp1 lp2 gw
  show "(fst (ListMembers s workspaceID userID page pageSize) \<in>
        {Inr \<lparr>mlr_Members = [], mlr_Total = 0, mlr_Page = page, mlr_PageSize = pageSize,
              mlr_TotalPages = 0\<rparr>, Inl ErrStore}) \<and>
     (db_faults s = [] \<longrightarrow>
        ListMembers s workspaceID userID page pageSize =
          (Inr \<lparr>mlr_Members = [], mlr_Total = 0, mlr_Page = page, mlr_PageSize = pageSize,
                mlr_TotalPages = 0\<rparr>, s)) \<and>
     (af_WorkspaceID af = workspaceID \<and> workspaceID \<noteq> [] \<longrightarrow>
        (fst (GetAuditLogs s af userID) \<in>
           {Inr \<lparr>alr_Logs = [], alr_Total = 0, alr_Page = 1, alr_PageSize = af_PageSize af,
                 alr_TotalPages = 0\<rparr>, Inl ErrStore}) \<and>
        (db_faults s = [] \<longrightarrow>
           GetAuditLogs s af userID =
             (Inr \<lparr>alr_Logs = [], alr_Total = 0, alr_Page = 1, alr_PageSize = af_PageSize af,
                   alr_TotalPages = 0\<rparr>, s))) \<and>
     (pf_WorkspaceID pf = workspaceID \<and> workspaceID \<noteq> [] \<longrightarrow>
        (fst (ListProjects s pf userID) \<in>
           {Inr \<lparr>plr_Projects = [], plr_Total = 0, plr_Page = 1, plr_PageSize = pf_PageSize pf,
                 plr_TotalPages = 0\<rparr>, Inl ErrStore}) \<and>
        (db_faults s = [] \<longrightarrow>
           ListProjects s pf userID =
             (Inr \<lparr>plr_Projects = [], plr_Total = 0, plr_Page = 1, plr_PageSize = pf_PageSize pf,
                   plr_TotalPages = 0\<rparr>, s))) \<and>
     isl (fst (GetWorkspace s workspaceID userID)) \<and>
     (db_faults s = [] \<and> live_workspace s workspaceID \<noteq> None \<longrightarrow>
        fst (GetWorkspace s workspaceID userID) = Inl ErrUnauthorized)"
    by blast
qed

theorem non_member_access_witness:
  "membership acme_store ''w1'' ''mallory'' = None \<and> db_faults acme_store = [] \<and>
   af_WorkspaceID w1_filter = ''w1'' \<and> pf_WorkspaceID w1_projects = ''w1'' \<and>
   live_workspace acme_store ''w1'' \<noteq> None \<and>
   fst (ListMembers acme_store ''w1'' ''mallory'' 2 500) =
     Inr \<lparr>mlr_Members = [], mlr_Total = 0, mlr_Page = 2, mlr_PageSize = 500,
          mlr_TotalPages = 0\<rparr> \<and>
   fst (GetAuditLogs acme_store w1_filter ''mallory'') =
     Inr \<lparr>alr_Logs = [], alr_Total = 0, alr_Page = 1, alr_PageSize = 0, alr_TotalPages = 0\<rparr> \<and>
   fst (ListProjects acme_store w1_projects ''mallory'') =
     Inr \<lparr>plr_Projects = [], plr_Total = 0, plr_Page = 1, plr_PageSize = 0,
          plr_TotalPages = 0\<rparr> \<and>
   fst (GetWorkspace acme_store ''w1'' ''mallory'') = Inl ErrUnauthorized"
proof -
  have nf: "db_faults acme_store = []"
    by (simp add: acme_store_def team_store_def empty_store_fields)
  have m: "membership acme_store ''w1'' ''mallory'' = None"
    by (simp add: membership_def acme_store_def team_store_def
        empty_store_fields alice_owner_def bob_member_def)
  have lw: "live_workspace acme_store ''w1'' \<noteq> None"
    by (simp add: live_workspace_def acme_store_def acme_def)
  have f: "af_WorkspaceID w1_filter = ''w1''" "pf_WorkspaceID w1_projects = ''w1''"
    "af_PageSize w1_filter = 0" "pf_PageSize w1_projects = 0"
    by (simp_all add: w1_filter_def no_filter_def w1_projects_def)
  from non_member_access [of acme_store "''w1''" "''mallory''" 2 500 w1_filter w1_projects]
    m nf lw f
  show ?thesis by simp
qed

subsection \<open>Reading a workspace after an update\<close>

lemma db_exec_only: "db_exec s = (f, t) \<Longrightarrow> \<exists>d. t = s\<lparr>db_faults := d\<rparr>"
  by (auto simp: db_exec_eq)










lemma name_settled_frame [simp]:
  "name_settled (s\<lparr>db_faults := d\<rparr>) i X = name_settled s i X"
  "name_settled (s\<lparr>redis_faults := r\<rparr>) i X = name_settled s i X"
  "name_settled (s\<lparr>audit_faults := a\<rparr>) i X = name_settled s i X"
  "name_settled (s\<lparr>clock := c\<rparr>) i X = name_settled s i X"
  by (simp_all add: name_settled_def)








subsection \<open>Audit-log writes and the operations that make them\<close>

text \<open>No statement but the audit-log write reads the schedule of audit-log failures.\<close>

lemma db_exec_audit:
  "db_exec (s\<lparr>audit_faults := a\<rparr>) = (fst (db_exec s), (snd (db_exec s))\<lparr>audit_faults := a\<rparr>)"
  by (simp add: db_exec_def split: list.splits)



lemma preload_Workspace_audit:
  "preload_Workspace (s\<lparr>audit_faults := a\<rparr>) = preload_Workspace s"
  by (rule ext) (simp add: preload_Workspace_def)



lemma Project_where_audit:
  "Project_where (s\<lparr>audit_faults := a\<rparr>) f = Project_where s f"
  by (simp add: Project_where_def Let_def)































lemma list3_audit:
  assumes g: "\<And>t. g (t\<lparr>audit_faults := a\<rparr>) = g t"
  shows "(case db_exec (s\<lparr>audit_faults := a\<rparr>) of
            (True, s1) \<Rightarrow> (Inl ErrStore, s1)
          | (False, s1) \<Rightarrow>
              (case db_exec s1 of
                 (True, s2) \<Rightarrow> (Inl ErrStore, s2)
               | (False, s2) \<Rightarrow>
                   if found = [] then (Inr ([], n), s2)
                   else (case db_exec s2 of
                           (True, s3) \<Rightarrow> (Inl ErrStore, s3)
                         | (False, s3) \<Rightarrow> (Inr (g s3, n), s3)))) =
         (fst (case db_exec s of
            (True, s1) \<Rightarrow> (Inl ErrStore, s1)
          | (False, s1) \<Rightarrow>
              (case db_exec s1 of
                 (True, s2) \<Rightarrow> (Inl ErrStore, s2)
               | (False, s2) \<Rightarrow>
                   if found = [] then (Inr ([], n), s2)
                   else (case db_exec s2 of
                           (True, s3) \<Rightarrow> (Inl ErrStore, s3)
                         | (False, s3) \<Rightarrow> (Inr (g s3, n), s3)))),
          (snd (case db_exec s of
            (True, s1) \<Rightarrow> (Inl ErrStore, s1)
          | (False, s1) \<Rightarrow>
              (case db_exec s1 of
                 (True, s2) \<Rightarrow> (Inl ErrStore, s2)
               | (False, s2) \<Rightarrow>
                   if found = [] then (Inr ([], n), s2)
                   else (case db_exec s2 of
                           (True, s3) \<Rightarrow> (Inl ErrStore, s3)
                         | (False, s3) \<Rightarrow> (Inr (g s3, n), s3)))))\<lparr>audit_faults := a\<rparr>)"
  by (simp add: db_exec_audit case_prod_beta g split: bool.splits)

lemma engine_audit: "engine (s\<lparr>audit_faults := a\<rparr>) = engine s"
  by simp


lemma Project_List_audit:
  "Project_List (s\<lparr>audit_faults := a\<rparr>) f =
     (fst (Project_List s f), (snd (Project_List s f))\<lparr>audit_faults := a\<rparr>)"
  unfolding Project_List_def Let_def Project_where_audit engine_audit
  by (rule list3_audit) (simp add: preload_Workspace_audit)
































end
